theory Spec2Isabelle
  imports Main "HOL-Library.Char_ord" "HOL-Library.List_Lexorder"
begin

section \<open>JavaScript values and the host platform\<close>

text \<open>
  The backend (\<^verbatim>\<open>db.js\<close>, \<^verbatim>\<open>index.js\<close>) and the client (\<^verbatim>\<open>App.tsx\<close>) are JavaScript.
  A number is either an integer or some other number (a fraction, NaN, an infinity):
  the code only ever asks \<^verbatim>\<open>Number.isInteger\<close> and compares integers.  An object
  (array or plain object of a JSON body) is identified by the string its conversion
  to a primitive yields.
\<close>

datatype jsnum = Integer int | NonInteger

datatype jsval = JUndefined | JNull | JBool bool | JNum jsnum | JStr string | JObject string

text \<open>
  What the code leaves to its host: the local time zone adjustment \<^verbatim>\<open>LocalTZA(t, isUTC)\<close>
  of ECMAScript, the implementation-defined fallback of \<^verbatim>\<open>Date.parse\<close> for strings that
  are not in the Date Time String Format, the conversion of a string to a number, and the
  instant SQLite assigns to a time string that is a bare number (a Julian day).
\<close>

record platform =
  LocalTZA :: "int \<Rightarrow> bool \<Rightarrow> int"
  legacyDateParse :: "string \<Rightarrow> int option"
  StringToNumber :: "string \<Rightarrow> jsnum"
  julianDayText :: "string \<Rightarrow> int option"

datatype error = RangeError

section \<open>ECMAScript time values\<close>

text \<open>
  A time value is a number of milliseconds since 1970-01-01T00:00:00Z, or NaN
  (\<open>None\<close>).  The day and year arithmetic follows the definitions of the language
  standard (Day, TimeWithinDay, DaysInYear, DayFromYear, YearFromTime, MonthFromTime,
  DateFromTime, MakeTime, MakeDay, MakeDate, TimeClip).
\<close>

definition msPerSecond :: int where "msPerSecond = 1000"
definition msPerMinute :: int where "msPerMinute = 60000"
definition msPerHour :: int where "msPerHour = 3600000"
definition msPerDay :: int where "msPerDay = 86400000"

definition Day :: "int \<Rightarrow> int" where
  "Day t = t div msPerDay"

definition TimeWithinDay :: "int \<Rightarrow> int" where
  "TimeWithinDay t = t mod msPerDay"

definition DaysInYear :: "int \<Rightarrow> int" where
  "DaysInYear y =
     (if y mod 4 \<noteq> 0 then 365
      else if y mod 100 \<noteq> 0 then 366
      else if y mod 400 \<noteq> 0 then 365
      else 366)"

definition DayFromYear :: "int \<Rightarrow> int" where
  "DayFromYear y =
     365 * (y - 1970) + (y - 1969) div 4 - (y - 1901) div 100 + (y - 1601) div 400"

text \<open>
  \<^verbatim>\<open>YearFromTime(t)\<close> is the largest year \<open>y\<close> whose first day is not after \<open>t\<close>.
  It is computed from an estimate over the 400-year cycle of 146097 days, which
  is off by at most one year (lemmas \<open>YearFromDay_spec\<close> and \<open>YearFromDay_unique\<close> below).
\<close>

definition YearFromDay :: "int \<Rightarrow> int" where
  "YearFromDay d =
     (let e = 1970 + (400 * d) div 146097
      in if DayFromYear (e + 1) \<le> d then e + 1
         else if DayFromYear e \<le> d then e
         else e - 1)"

definition YearFromTime :: "int \<Rightarrow> int" where
  "YearFromTime t = YearFromDay (Day t)"

definition DayWithinYear :: "int \<Rightarrow> int" where
  "DayWithinYear t = Day t - DayFromYear (YearFromTime t)"

definition InLeapYear :: "int \<Rightarrow> int" where
  "InLeapYear t = (if DaysInYear (YearFromTime t) = 366 then 1 else 0)"

definition MonthFromTime :: "int \<Rightarrow> int" where
  "MonthFromTime t =
     (let d = DayWithinYear t; l = InLeapYear t
      in if d < 31 then 0
         else if d < 59 + l then 1
         else if d < 90 + l then 2
         else if d < 120 + l then 3
         else if d < 151 + l then 4
         else if d < 181 + l then 5
         else if d < 212 + l then 6
         else if d < 243 + l then 7
         else if d < 273 + l then 8
         else if d < 304 + l then 9
         else if d < 334 + l then 10
         else 11)"

definition DateFromTime :: "int \<Rightarrow> int" where
  "DateFromTime t =
     (let d = DayWithinYear t; l = InLeapYear t; m = MonthFromTime t
      in if m = 0 then d + 1
         else if m = 1 then d - 30
         else if m = 2 then d - 58 - l
         else if m = 3 then d - 89 - l
         else if m = 4 then d - 119 - l
         else if m = 5 then d - 150 - l
         else if m = 6 then d - 180 - l
         else if m = 7 then d - 211 - l
         else if m = 8 then d - 242 - l
         else if m = 9 then d - 272 - l
         else if m = 10 then d - 303 - l
         else d - 333 - l)"

definition HourFromTime :: "int \<Rightarrow> int" where
  "HourFromTime t = (t div msPerHour) mod 24"

definition MinFromTime :: "int \<Rightarrow> int" where
  "MinFromTime t = (t div msPerMinute) mod 60"

definition SecFromTime :: "int \<Rightarrow> int" where
  "SecFromTime t = (t div msPerSecond) mod 60"

definition msFromTime :: "int \<Rightarrow> int" where
  "msFromTime t = t mod msPerSecond"

definition LocalTime :: "platform \<Rightarrow> int \<Rightarrow> int" where
  "LocalTime pf t = t + LocalTZA pf t True"

definition UTC :: "platform \<Rightarrow> int \<Rightarrow> int" where
  "UTC pf t = t - LocalTZA pf t False"

definition MakeTime :: "int \<Rightarrow> int \<Rightarrow> int \<Rightarrow> int \<Rightarrow> int" where
  "MakeTime h m s milli = h * msPerHour + m * msPerMinute + s * msPerSecond + milli"

text \<open>
  \<^verbatim>\<open>MakeDay(year, month, date)\<close>: the day number of the first of the month
  \<open>(year + month div 12, month mod 12)\<close>, plus \<open>date - 1\<close>.
\<close>

definition monthStart :: "int \<Rightarrow> int \<Rightarrow> int" where
  "monthStart y m =
     (let l = (if DaysInYear y = 366 then 1 else 0)
      in if m = 0 then 0
         else if m = 1 then 31
         else if m = 2 then 59 + l
         else if m = 3 then 90 + l
         else if m = 4 then 120 + l
         else if m = 5 then 151 + l
         else if m = 6 then 181 + l
         else if m = 7 then 212 + l
         else if m = 8 then 243 + l
         else if m = 9 then 273 + l
         else if m = 10 then 304 + l
         else 334 + l)"

definition MakeDay :: "int \<Rightarrow> int \<Rightarrow> int \<Rightarrow> int" where
  "MakeDay year month date =
     (let ym = year + month div 12; mn = month mod 12
      in DayFromYear ym + monthStart ym mn + date - 1)"

definition MakeDate :: "int \<Rightarrow> int \<Rightarrow> int" where
  "MakeDate day time = day * msPerDay + time"

definition maxTime :: int where "maxTime = 8640000000000000"

definition TimeClip :: "int \<Rightarrow> int option" where
  "TimeClip time = (if abs time > maxTime then None else Some time)"

section \<open>Decimal digits\<close>

definition digitChar :: "int \<Rightarrow> char" where
  "digitChar n = char_of (48 + n mod 10)"

definition isDigit :: "char \<Rightarrow> bool" where
  "isDigit c \<longleftrightarrow> 48 \<le> (of_char c :: int) \<and> (of_char c :: int) \<le> 57"

definition digitValue :: "char \<Rightarrow> int" where
  "digitValue c = (of_char c :: int) - 48"

text \<open>\<open>pad k n\<close>: the last \<open>k\<close> decimal digits of \<open>n\<close>, zero-filled on the left.\<close>

fun pad :: "nat \<Rightarrow> int \<Rightarrow> string" where
  "pad 0 n = []"
| "pad (Suc k) n = pad k (n div 10) @ [digitChar n]"

text \<open>The decimal numeral of a number that is not negative, as \<^verbatim>\<open>String(n)\<close> writes it.\<close>

function decimal :: "int \<Rightarrow> string" where
  "decimal n = (if n < 10 then [digitChar n] else decimal (n div 10) @ [digitChar n])"
  by pat_completeness auto
termination
  by (relation "measure nat") auto

declare decimal.simps [simp del]

definition digitsValue :: "string \<Rightarrow> int" where
  "digitsValue s = foldl (\<lambda>a c. 10 * a + digitValue c) 0 s"

text \<open>Reads exactly \<open>k\<close> digits from the front of a string.\<close>

definition takeDigits :: "nat \<Rightarrow> string \<Rightarrow> (int \<times> string) option" where
  "takeDigits k s =
     (if k \<le> length s \<and> list_all isDigit (take k s)
      then Some (digitsValue (take k s), drop k s)
      else None)"

section \<open>The Date Time String Format and \<^verbatim>\<open>Date\<close> objects\<close>

text \<open>
  \<^verbatim>\<open>Date.parse\<close> first reads the Date Time String Format of the standard:
  \<^verbatim>\<open>YYYY\<close>, \<^verbatim>\<open>YYYY-MM\<close> or \<^verbatim>\<open>YYYY-MM-DD\<close> (or an expanded year \<^verbatim>\<open>+YYYYYY\<close>, \<^verbatim>\<open>-YYYYYY\<close>),
  optionally followed by \<^verbatim>\<open>THH:mm\<close>, \<^verbatim>\<open>THH:mm:ss\<close> or \<^verbatim>\<open>THH:mm:ss.sss\<close> and a zone
  \<^verbatim>\<open>Z\<close>, \<^verbatim>\<open>+HH:mm\<close> or \<^verbatim>\<open>-HH:mm\<close>.  A date without time is UTC, a date with a time
  and no zone is local time.  Any other string goes to the host's fallback parser,
  except the empty string, which no implementation reads as a date.
\<close>

definition isoYear :: "string \<Rightarrow> (int \<times> string) option" where
  "isoYear s =
     (case s of
        [] \<Rightarrow> None
      | c # r \<Rightarrow>
          if c = CHR ''+'' then takeDigits 6 r
          else if c = CHR ''-'' then
            (case takeDigits 6 r of
               None \<Rightarrow> None
             | Some (y, r') \<Rightarrow> if y = 0 then None else Some (- y, r'))
          else takeDigits 4 s)"

definition isoMonthDay :: "string \<Rightarrow> (int \<times> int \<times> string) option" where
  "isoMonthDay s =
     (case s of
        [] \<Rightarrow> Some (1, 1, s)
      | c # r \<Rightarrow>
          if c = CHR ''-'' then
            (case takeDigits 2 r of
               None \<Rightarrow> None
             | Some (m, r') \<Rightarrow>
                 (case r' of
                    [] \<Rightarrow> Some (m, 1, r')
                  | c' # r'' \<Rightarrow>
                      if c' = CHR ''-'' then
                        (case takeDigits 2 r'' of
                           None \<Rightarrow> None
                         | Some (d, r3) \<Rightarrow> Some (m, d, r3))
                      else Some (m, 1, r')))
          else Some (1, 1, s))"

definition isoFraction :: "string \<Rightarrow> (int \<times> string) option" where
  "isoFraction s =
     (case s of
        [] \<Rightarrow> Some (0, s)
      | c # r \<Rightarrow> if c = CHR ''.'' then takeDigits 3 r else Some (0, s))"

definition isoSeconds :: "string \<Rightarrow> (int \<times> int \<times> string) option" where
  "isoSeconds s =
     (case s of
        [] \<Rightarrow> Some (0, 0, s)
      | c # r \<Rightarrow>
          if c = CHR '':'' then
            (case takeDigits 2 r of
               None \<Rightarrow> None
             | Some (sec, r') \<Rightarrow>
                 (case isoFraction r' of
                    None \<Rightarrow> None
                  | Some (milli, r'') \<Rightarrow> Some (sec, milli, r'')))
          else Some (0, 0, s))"

text \<open>The zone of a parsed string: local time, or minutes east of UTC.\<close>

datatype isoZone = ZoneLocal | ZoneOffset int

definition isoOffset :: "string \<Rightarrow> isoZone option" where
  "isoOffset s =
     (case s of
        [] \<Rightarrow> Some ZoneLocal
      | c # r \<Rightarrow>
          if c = CHR ''Z'' then (if r = [] then Some (ZoneOffset 0) else None)
          else if c = CHR ''+'' \<or> c = CHR ''-'' then
            (case takeDigits 2 r of
               None \<Rightarrow> None
             | Some (h, r') \<Rightarrow>
                 (case r' of
                    [] \<Rightarrow> None
                  | c' # r'' \<Rightarrow>
                      if c' = CHR '':'' then
                        (case takeDigits 2 r'' of
                           None \<Rightarrow> None
                         | Some (m, r3) \<Rightarrow>
                             if r3 = [] \<and> h \<le> 23 \<and> m \<le> 59
                             then Some (ZoneOffset ((if c = CHR ''-'' then - 1 else 1) * (h * 60 + m)))
                             else None)
                      else None))
          else None)"

definition isoTime :: "string \<Rightarrow> (int \<times> isoZone) option" where
  "isoTime s =
     (case s of
        [] \<Rightarrow> Some (0, ZoneOffset 0)
      | c # r \<Rightarrow>
          if c = CHR ''T'' then
            (case takeDigits 2 r of
               None \<Rightarrow> None
             | Some (h, r1) \<Rightarrow>
                 (case r1 of
                    [] \<Rightarrow> None
                  | c1 # r2 \<Rightarrow>
                      if c1 = CHR '':'' then
                        (case takeDigits 2 r2 of
                           None \<Rightarrow> None
                         | Some (m, r3) \<Rightarrow>
                             (case isoSeconds r3 of
                                None \<Rightarrow> None
                              | Some (sec, milli, r4) \<Rightarrow>
                                  (case isoOffset r4 of
                                     None \<Rightarrow> None
                                   | Some z \<Rightarrow>
                                       if (h \<le> 23 \<and> m \<le> 59 \<and> sec \<le> 59)
                                          \<or> (h = 24 \<and> m = 0 \<and> sec = 0 \<and> milli = 0)
                                       then Some (MakeTime h m sec milli, z)
                                       else None)))
                      else None))
          else None)"

text \<open>The instant a string in the format denotes, before the zone is applied.\<close>

definition isoDateTime :: "string \<Rightarrow> (int \<times> isoZone) option" where
  "isoDateTime s =
     (case isoYear s of
        None \<Rightarrow> None
      | Some (y, r) \<Rightarrow>
          (case isoMonthDay r of
             None \<Rightarrow> None
           | Some (m, d, r') \<Rightarrow>
               (case isoTime r' of
                  None \<Rightarrow> None
                | Some (time, z) \<Rightarrow>
                    if 1 \<le> m \<and> m \<le> 12 \<and> 1 \<le> d \<and> d \<le> 31
                    then Some (MakeDate (MakeDay y (m - 1) d) time, z)
                    else None)))"

definition Date_parse :: "platform \<Rightarrow> string \<Rightarrow> int option" where
  "Date_parse pf s =
     (case isoDateTime s of
        None \<Rightarrow> if s = [] then None else legacyDateParse pf s
      | Some (tv, ZoneLocal) \<Rightarrow> TimeClip (UTC pf tv)
      | Some (tv, ZoneOffset minutes) \<Rightarrow> TimeClip (tv - minutes * msPerMinute))"

text \<open>
  \<^verbatim>\<open>toISOString\<close> of a valid time value: \<^verbatim>\<open>YYYY-MM-DDTHH:mm:ss.sssZ\<close>, the year with six
  digits and a sign when it is outside 0..9999.
\<close>

definition isoYearString :: "int \<Rightarrow> string" where
  "isoYearString y =
     (if 0 \<le> y \<and> y \<le> 9999 then pad 4 y
      else (if y < 0 then ''-'' else ''+'') @ pad 6 (abs y))"

definition toISOString :: "int \<Rightarrow> string" where
  "toISOString t =
     isoYearString (YearFromTime t) @ ''-'' @ pad 2 (MonthFromTime t + 1) @ ''-''
       @ pad 2 (DateFromTime t) @ ''T'' @ pad 2 (HourFromTime t) @ '':''
       @ pad 2 (MinFromTime t) @ '':'' @ pad 2 (SecFromTime t) @ ''.''
       @ pad 3 (msFromTime t) @ ''Z''"

text \<open>
  A \<^verbatim>\<open>Date\<close> object is its time value.  \<^verbatim>\<open>getDate\<close> and \<^verbatim>\<open>setDate\<close> work in local time;
  \<^verbatim>\<open>toISOString\<close> throws a RangeError on an invalid date.
\<close>

type_synonym date = "int option"

definition Date_new :: "platform \<Rightarrow> string \<Rightarrow> date" where
  "Date_new pf s = Date_parse pf s"

definition getTime :: "date \<Rightarrow> int option" where
  "getTime d = d"

definition getDate :: "platform \<Rightarrow> date \<Rightarrow> int option" where
  "getDate pf d = (case d of None \<Rightarrow> None | Some t \<Rightarrow> Some (DateFromTime (LocalTime pf t)))"

definition setDate :: "platform \<Rightarrow> date \<Rightarrow> int option \<Rightarrow> date" where
  "setDate pf d dt =
     (case d of
        None \<Rightarrow> None
      | Some t0 \<Rightarrow>
          (case dt of
             None \<Rightarrow> None
           | Some n \<Rightarrow>
               (let t = LocalTime pf t0;
                    newDate = MakeDate (MakeDay (YearFromTime t) (MonthFromTime t) n) (TimeWithinDay t)
                in TimeClip (UTC pf newDate))))"

definition Date_toISOString :: "date \<Rightarrow> error + string" where
  "Date_toISOString d = (case d of None \<Rightarrow> Inl RangeError | Some t \<Rightarrow> Inr (toISOString t))"

section \<open>SQLite date and time functions, and SQL's three-valued logic\<close>

text \<open>
  \<^verbatim>\<open>datetime(X, '+N days')\<close> parses the time string \<open>X\<close>, adds \<open>N\<close> days of 86400000
  milliseconds, and writes the result as \<^verbatim>\<open>YYYY-MM-DD HH:MM:SS\<close> (whole seconds,
  the fraction dropped).  It is NULL when \<open>X\<close> is NULL or is not a time string,
  when the modifier is not accepted, or when the result leaves the range
  -4713-11-24 12:00:00 .. 9999-12-31 23:59:59.  SQLite uses the proleptic Gregorian
  calendar, the calendar of the time values above; instants are kept here as
  milliseconds since 1970-01-01 (SQLite's \<^verbatim>\<open>iJD\<close> minus 210866760000000).
\<close>

definition sqlite3Isspace :: "char \<Rightarrow> bool" where
  "sqlite3Isspace c \<longleftrightarrow> (of_char c :: int) = 32 \<or> (9 \<le> (of_char c :: int) \<and> (of_char c :: int) \<le> 13)"

definition parseTimezone :: "string \<Rightarrow> int option" where
  "parseTimezone s0 =
     (case dropWhile sqlite3Isspace s0 of
        [] \<Rightarrow> Some 0
      | c # r \<Rightarrow>
          if c = CHR ''Z'' \<or> c = CHR ''z''
          then (if dropWhile sqlite3Isspace r = [] then Some 0 else None)
          else if c = CHR ''+'' \<or> c = CHR ''-'' then
            (case takeDigits 2 r of
               None \<Rightarrow> None
             | Some (nHr, r1) \<Rightarrow>
                 (case r1 of
                    [] \<Rightarrow> None
                  | c1 # r2 \<Rightarrow>
                      if c1 = CHR '':'' then
                        (case takeDigits 2 r2 of
                           None \<Rightarrow> None
                         | Some (nMn, r3) \<Rightarrow>
                             if nHr \<le> 14 \<and> nMn \<le> 59 \<and> dropWhile sqlite3Isspace r3 = []
                             then Some ((if c = CHR ''-'' then - 1 else 1) * (nMn + nHr * 60))
                             else None)
                      else None))
          else None)"

text \<open>
  The seconds field with its fraction, in milliseconds, rounded to the nearest
  millisecond as \<^verbatim>\<open>(sqlite3_int64)(s*1000 + 0.5)\<close> does, and the rest of the string.
\<close>

definition parseSeconds :: "string \<Rightarrow> (int \<times> string) option" where
  "parseSeconds s =
     (case s of
        [] \<Rightarrow> Some (0, s)
      | c # r \<Rightarrow>
          if c = CHR '':'' then
            (case takeDigits 2 r of
               None \<Rightarrow> None
             | Some (sec, r1) \<Rightarrow>
                 if sec \<le> 59 then
                   (case r1 of
                      [] \<Rightarrow> Some (sec * 1000, r1)
                    | c1 # r2 \<Rightarrow>
                        if c1 = CHR ''.'' \<and> takeWhile isDigit r2 \<noteq> []
                        then (let ds = takeWhile isDigit r2;
                                  scale = 10 ^ length ds
                              in Some (sec * 1000
                                         + (2000 * digitsValue ds + scale) div (2 * scale),
                                       dropWhile isDigit r2))
                        else Some (sec * 1000, r1))
                 else None)
          else Some (0, s))"

text \<open>\<^verbatim>\<open>parseHhMmSs\<close>: milliseconds within the day, and the zone in minutes.\<close>

definition parseHhMmSs :: "string \<Rightarrow> (int \<times> int) option" where
  "parseHhMmSs s =
     (case takeDigits 2 s of
        None \<Rightarrow> None
      | Some (h, r) \<Rightarrow>
          (case r of
             [] \<Rightarrow> None
           | c # r1 \<Rightarrow>
               if c = CHR '':'' then
                 (case takeDigits 2 r1 of
                    None \<Rightarrow> None
                  | Some (m, r2) \<Rightarrow>
                      if h \<le> 24 \<and> m \<le> 59 then
                        (case parseSeconds r2 of
                           None \<Rightarrow> None
                         | Some (milli, r3) \<Rightarrow>
                             (case parseTimezone r3 of
                                None \<Rightarrow> None
                              | Some tz \<Rightarrow> Some (h * 3600000 + m * 60000 + milli, tz)))
                      else None)
               else None))"

text \<open>\<^verbatim>\<open>parseYyyyMmDd\<close>: year, month, day, milliseconds within the day, zone.\<close>

definition parseYyyyMmDd :: "string \<Rightarrow> (int \<times> int \<times> int \<times> int \<times> int) option" where
  "parseYyyyMmDd s0 =
     (let neg = (s0 \<noteq> [] \<and> hd s0 = CHR ''-'');
          s = (if neg then tl s0 else s0)
      in case takeDigits 4 s of
           None \<Rightarrow> None
         | Some (Y, r) \<Rightarrow>
             (case r of
                [] \<Rightarrow> None
              | c # r1 \<Rightarrow>
                  if c = CHR ''-'' then
                    (case takeDigits 2 r1 of
                       None \<Rightarrow> None
                     | Some (M, r2) \<Rightarrow>
                         (case r2 of
                            [] \<Rightarrow> None
                          | c2 # r3 \<Rightarrow>
                              if c2 = CHR ''-'' then
                                (case takeDigits 2 r3 of
                                   None \<Rightarrow> None
                                 | Some (D, r4) \<Rightarrow>
                                     if 1 \<le> M \<and> M \<le> 12 \<and> 1 \<le> D \<and> D \<le> 31 then
                                       (let z = dropWhile (\<lambda>c. sqlite3Isspace c \<or> c = CHR ''T'') r4
                                        in case parseHhMmSs z of
                                             Some (time, tz) \<Rightarrow>
                                               Some ((if neg then - Y else Y), M, D, time, tz)
                                           | None \<Rightarrow>
                                               if z = []
                                               then Some ((if neg then - Y else Y), M, D, 0, 0)
                                               else None)
                                     else None)
                              else None))
                  else None))"

text \<open>\<^verbatim>\<open>computeJD\<close>: the instant of the parsed fields; an error outside years -4713..9999.\<close>

definition computeJD :: "int \<Rightarrow> int \<Rightarrow> int \<Rightarrow> int \<Rightarrow> int \<Rightarrow> int option" where
  "computeJD Y M D time tz =
     (if Y < - 4713 \<or> Y > 9999 then None
      else Some (MakeDate (MakeDay Y (M - 1) D) time - tz * 60000))"

definition asciiLower :: "char \<Rightarrow> char" where
  "asciiLower c =
     (if 65 \<le> (of_char c :: int) \<and> (of_char c :: int) \<le> 90
      then char_of ((of_char c :: int) + 32) else c)"

text \<open>
  \<^verbatim>\<open>parseDateOrTime\<close>: a date with optional time, a time alone (on 2000-01-01),
  the word \<^verbatim>\<open>now\<close>, or a bare number.
\<close>

definition parseDateOrTime :: "platform \<Rightarrow> int \<Rightarrow> string \<Rightarrow> int option" where
  "parseDateOrTime pf now s =
     (case parseYyyyMmDd s of
        Some (Y, M, D, time, tz) \<Rightarrow> computeJD Y M D time tz
      | None \<Rightarrow>
          (case parseHhMmSs s of
             Some (time, tz) \<Rightarrow> computeJD 2000 1 1 time tz
           | None \<Rightarrow> if map asciiLower s = ''now'' then Some now else julianDayText pf s))"

definition validJulianDay :: "int \<Rightarrow> bool" where
  "validJulianDay t \<longleftrightarrow> - 210866760000000 \<le> t \<and> t \<le> 253402300799999"

text \<open>The text \<^verbatim>\<open>YYYY-MM-DD HH:MM:SS\<close> of an instant, a minus sign before a negative year.\<close>

definition datetimeText :: "int \<Rightarrow> string" where
  "datetimeText t =
     (if YearFromTime t < 0 then ''-'' else [])
       @ pad 4 (abs (YearFromTime t)) @ ''-'' @ pad 2 (MonthFromTime t + 1) @ ''-''
       @ pad 2 (DateFromTime t) @ '' '' @ pad 2 (HourFromTime t) @ '':''
       @ pad 2 (MinFromTime t) @ '':'' @ pad 2 (SecFromTime t)"

text \<open>
  \<^verbatim>\<open>datetime(X, '+' || N || ' days')\<close> for a TEXT or NULL \<open>X\<close> and an integer \<open>N\<close>.
  The modifier \<^verbatim>\<open>+N days\<close> is accepted when \<open>N\<close> is written without a sign of
  its own and is below SQLite's limit of 5373485 days.
\<close>

definition datetime_plus_days :: "platform \<Rightarrow> int \<Rightarrow> string option \<Rightarrow> int \<Rightarrow> string option" where
  "datetime_plus_days pf now X N =
     (case X of
        None \<Rightarrow> None
      | Some s \<Rightarrow>
          (case parseDateOrTime pf now s of
             None \<Rightarrow> None
           | Some t \<Rightarrow>
               if 0 \<le> N \<and> N < 5373485 \<and> validJulianDay (t + N * 86400000)
               then Some (datetimeText (t + N * 86400000))
               else None))"

text \<open>\<^verbatim>\<open>datetime('now')\<close>, also the value of \<^verbatim>\<open>CURRENT_TIMESTAMP\<close>.\<close>

definition datetime_now :: "int \<Rightarrow> string option" where
  "datetime_now now = (if validJulianDay now then Some (datetimeText now) else None)"

text \<open>
  SQL truth values: \<open>None\<close> is NULL.  A comparison with a NULL operand is NULL;
  TEXT values compare bytewise (the BINARY collation), which is the lexicographic
  order on strings.  A WHERE clause keeps the rows whose condition is true.
\<close>

type_synonym sqlbool = "bool option"

definition sql_le :: "string option \<Rightarrow> string option \<Rightarrow> sqlbool" where
  "sql_le a b = (case a of None \<Rightarrow> None | Some x \<Rightarrow> (case b of None \<Rightarrow> None | Some y \<Rightarrow> Some (x \<le> y)))"

definition sql_gt :: "string option \<Rightarrow> string option \<Rightarrow> sqlbool" where
  "sql_gt a b = (case a of None \<Rightarrow> None | Some x \<Rightarrow> (case b of None \<Rightarrow> None | Some y \<Rightarrow> Some (x > y)))"

definition sql_or :: "sqlbool \<Rightarrow> sqlbool \<Rightarrow> sqlbool" where
  "sql_or a b =
     (if a = Some True \<or> b = Some True then Some True
      else if a = Some False \<and> b = Some False then Some False
      else None)"

definition sql_and :: "sqlbool \<Rightarrow> sqlbool \<Rightarrow> sqlbool" where
  "sql_and a b =
     (if a = Some False \<or> b = Some False then Some False
      else if a = Some True \<and> b = Some True then Some True
      else None)"

definition sql_is_null :: "'a option \<Rightarrow> sqlbool" where
  "sql_is_null x = Some (x = None)"

definition sql_is_not_null :: "'a option \<Rightarrow> sqlbool" where
  "sql_is_not_null x = Some (x \<noteq> None)"

section \<open>The storage layer (\<^verbatim>\<open>db.js\<close>)\<close>

text \<open>
  A row of table \<^verbatim>\<open>plants\<close>.  The columns \<^verbatim>\<open>id\<close>, \<^verbatim>\<open>name\<close>, \<^verbatim>\<open>species\<close> and \<^verbatim>\<open>notes\<close>
  carry a \<open>row_\<close> prefix here, to keep them apart from the fields of the object
  \<^verbatim>\<open>mapRow\<close> builds.  The database is the table, in insertion order, and the largest
  rowid handed out so far (AUTOINCREMENT never reuses one).
\<close>

record row =
  row_id :: int
  row_name :: string
  row_species :: string
  watering_interval_days :: int
  last_watered_at :: "string option"
  row_notes :: string
  created_at :: string

record database =
  plants :: "row list"
  sqlite_sequence :: int

text \<open>The object \<^verbatim>\<open>mapRow\<close> returns, the \<^verbatim>\<open>Plant\<close> type of the client.\<close>

record plant =
  id' :: int
  name :: string
  species :: string
  wateringIntervalDays :: int
  lastWateredAt :: "string option"
  notes' :: string
  createdAt :: string
  nextWateringDueAt' :: "string option"

text \<open>
  \<^verbatim>\<open>nextWateringDueAt\<close>: null for a null or empty \<^verbatim>\<open>lastWateredAt\<close> and for one that does
  not parse; otherwise the date is moved by \<^verbatim>\<open>setDate(getDate() + N)\<close> and written
  with \<^verbatim>\<open>toISOString\<close>, which throws when the moved date is invalid.
\<close>

definition nextWateringDueAt :: "platform \<Rightarrow> string option \<Rightarrow> int \<Rightarrow> error + string option" where
  "nextWateringDueAt pf lastWateredAt0 wateringIntervalDays0 =
     (case lastWateredAt0 of
        None \<Rightarrow> Inr None
      | Some s \<Rightarrow>
          if s = [] then Inr None
          else
            (let lastDate = Date_new pf s
             in if getTime lastDate = None then Inr None
                else
                  (case Date_toISOString
                          (setDate pf lastDate
                             (case getDate pf lastDate of
                                None \<Rightarrow> None
                              | Some d \<Rightarrow> Some (d + wateringIntervalDays0))) of
                     Inl e \<Rightarrow> Inl e
                   | Inr text \<Rightarrow> Inr (Some text))))"

definition mapRow :: "platform \<Rightarrow> row \<Rightarrow> error + plant" where
  "mapRow pf r =
     (case nextWateringDueAt pf (last_watered_at r) (watering_interval_days r) of
        Inl e \<Rightarrow> Inl e
      | Inr next \<Rightarrow>
          Inr \<lparr> id' = row_id r,
                name = row_name r,
                species = row_species r,
                wateringIntervalDays = watering_interval_days r,
                lastWateredAt = last_watered_at r,
                notes' = row_notes r,
                createdAt = created_at r,
                nextWateringDueAt' = next \<rparr>)"

text \<open>The WHERE clauses of \<^verbatim>\<open>listPlants\<close>, evaluated on one row at the database's \<open>now\<close>.\<close>

definition due_condition :: "platform \<Rightarrow> int \<Rightarrow> row \<Rightarrow> sqlbool" where
  "due_condition pf now r =
     sql_or (sql_is_null (last_watered_at r))
            (sql_le (datetime_plus_days pf now (last_watered_at r) (watering_interval_days r))
                    (datetime_now now))"

definition upcoming_condition :: "platform \<Rightarrow> int \<Rightarrow> row \<Rightarrow> sqlbool" where
  "upcoming_condition pf now r =
     sql_and (sql_is_not_null (last_watered_at r))
             (sql_gt (datetime_plus_days pf now (last_watered_at r) (watering_interval_days r))
                     (datetime_now now))"

definition where_clause :: "platform \<Rightarrow> int \<Rightarrow> jsval \<Rightarrow> row \<Rightarrow> bool" where
  "where_clause pf now filter0 r =
     (if filter0 = JStr ''due'' then due_condition pf now r = Some True
      else if filter0 = JStr ''upcoming'' then upcoming_condition pf now r = Some True
      else True)"

text \<open>
  \<^verbatim>\<open>ORDER BY created_at DESC, id DESC\<close>: \<open>listed_before a b\<close> when row \<open>a\<close> may stand
  before row \<open>b\<close>; the rows are put in that order by insertion.
\<close>

definition listed_before :: "row \<Rightarrow> row \<Rightarrow> bool" where
  "listed_before a b \<longleftrightarrow>
     created_at a > created_at b \<or> (created_at a = created_at b \<and> row_id a \<ge> row_id b)"

fun insert_row :: "row \<Rightarrow> row list \<Rightarrow> row list" where
  "insert_row r [] = [r]"
| "insert_row r (x # xs) = (if listed_before r x then r # x # xs else x # insert_row r xs)"

definition order_by :: "row list \<Rightarrow> row list" where
  "order_by rs = foldr insert_row rs []"

text \<open>The loop over the statement's rows: \<^verbatim>\<open>mapRow\<close> on each, stopping at the first throw.\<close>

fun mapRows :: "platform \<Rightarrow> row list \<Rightarrow> error + plant list" where
  "mapRows pf [] = Inr []"
| "mapRows pf (r # rs) =
     (case mapRow pf r of
        Inl e \<Rightarrow> Inl e
      | Inr p \<Rightarrow> (case mapRows pf rs of Inl e \<Rightarrow> Inl e | Inr ps \<Rightarrow> Inr (p # ps)))"

definition listPlants :: "platform \<Rightarrow> int \<Rightarrow> database \<Rightarrow> jsval \<Rightarrow> error + plant list" where
  "listPlants pf now db filter0 =
     mapRows pf (order_by (filter (where_clause pf now filter0) (plants db)))"

definition getPlant :: "platform \<Rightarrow> database \<Rightarrow> int \<Rightarrow> error + plant option" where
  "getPlant pf db i =
     (case find (\<lambda>r. row_id r = i) (plants db) of
        None \<Rightarrow> Inr None
      | Some r \<Rightarrow> (case mapRow pf r of Inl e \<Rightarrow> Inl e | Inr p \<Rightarrow> Inr (Some p)))"

text \<open>
  \<^verbatim>\<open>createPlant\<close>: the INSERT gives the row the next rowid and the database's
  \<^verbatim>\<open>CURRENT_TIMESTAMP\<close>; the new record is then read back.  The arguments have the
  types the HTTP layer passes.
\<close>

definition next_rowid :: "database \<Rightarrow> int" where
  "next_rowid db = max (sqlite_sequence db) (foldr (\<lambda>r m. max (row_id r) m) (plants db) 0) + 1"

definition createPlant ::
  "platform \<Rightarrow> int \<Rightarrow> database \<Rightarrow> string \<Rightarrow> string \<Rightarrow> int \<Rightarrow> string option \<Rightarrow> string
     \<Rightarrow> database \<times> (error + plant option)" where
  "createPlant pf now db name0 species0 wateringIntervalDays0 lastWateredAt0 notes0 =
     (let i = next_rowid db;
          r = \<lparr> row_id = i,
                row_name = name0,
                row_species = species0,
                watering_interval_days = wateringIntervalDays0,
                last_watered_at = lastWateredAt0,
                row_notes = notes0,
                created_at = (case datetime_now now of None \<Rightarrow> [] | Some ts \<Rightarrow> ts) \<rparr>;
          db' = \<lparr> plants = plants db @ [r], sqlite_sequence = i \<rparr>
      in (db', if i \<noteq> 0 then getPlant pf db' i else Inr None))"

text \<open>The \<^verbatim>\<open>updates\<close> object of \<^verbatim>\<open>updatePlant\<close>; a property that is not there is undefined.\<close>

record updates =
  name_upd :: jsval
  species_upd :: jsval
  wateringIntervalDays_upd :: jsval
  lastWateredAt_upd :: jsval
  notes_upd :: jsval

definition update_row :: "string \<Rightarrow> string \<Rightarrow> int \<Rightarrow> string option \<Rightarrow> string \<Rightarrow> int \<Rightarrow> row \<Rightarrow> row" where
  "update_row nextName nextSpecies nextWateringIntervalDays nextLastWateredAt nextNotes i r =
     (if row_id r = i
      then r\<lparr> row_name := nextName,
              row_species := nextSpecies,
              watering_interval_days := nextWateringIntervalDays,
              last_watered_at := nextLastWateredAt,
              row_notes := nextNotes \<rparr>
      else r)"

definition updatePlant ::
  "platform \<Rightarrow> database \<Rightarrow> int \<Rightarrow> updates \<Rightarrow> database \<times> (error + plant option)" where
  "updatePlant pf db i u =
     (case getPlant pf db i of
        Inl e \<Rightarrow> (db, Inl e)
      | Inr None \<Rightarrow> (db, Inr None)
      | Inr (Some existing) \<Rightarrow>
          (let nextName =
                 (case name_upd u of
                    JStr s \<Rightarrow> if s \<noteq> [] then s else name existing
                  | _ \<Rightarrow> name existing);
               nextSpecies =
                 (case species_upd u of
                    JStr s \<Rightarrow> if s \<noteq> [] then s else species existing
                  | _ \<Rightarrow> species existing);
               nextWateringIntervalDays =
                 (case wateringIntervalDays_upd u of
                    JNum (Integer k) \<Rightarrow> k
                  | _ \<Rightarrow> wateringIntervalDays existing);
               nextLastWateredAt =
                 (case lastWateredAt_upd u of
                    JStr s \<Rightarrow> Some s
                  | JNull \<Rightarrow> None
                  | _ \<Rightarrow> lastWateredAt existing);
               nextNotes =
                 (case notes_upd u of
                    JStr s \<Rightarrow> s
                  | _ \<Rightarrow> notes' existing);
               db' = db\<lparr> plants :=
                          map (update_row nextName nextSpecies nextWateringIntervalDays
                                 nextLastWateredAt nextNotes i) (plants db) \<rparr>
           in (db', getPlant pf db' i)))"

definition deletePlant :: "database \<Rightarrow> int \<Rightarrow> database \<times> bool" where
  "deletePlant db i =
     (db\<lparr> plants := filter (\<lambda>r. row_id r \<noteq> i) (plants db) \<rparr>,
      list_ex (\<lambda>r. row_id r = i) (plants db))"

section \<open>The HTTP layer (\<^verbatim>\<open>index.js\<close>)\<close>

text \<open>
  Strings are sequences of 8-bit code units here; of the white space that \<^verbatim>\<open>trim\<close>
  removes, these are the characters such a unit can hold.
\<close>

definition isWhiteSpace :: "char \<Rightarrow> bool" where
  "isWhiteSpace c \<longleftrightarrow>
     (of_char c :: int) = 32 \<or> (9 \<le> (of_char c :: int) \<and> (of_char c :: int) \<le> 13)
       \<or> (of_char c :: int) = 160"

definition trim :: "string \<Rightarrow> string" where
  "trim s = rev (dropWhile isWhiteSpace (rev (dropWhile isWhiteSpace s)))"

definition formatText :: "jsval \<Rightarrow> string" where
  "formatText raw = (case raw of JStr s \<Rightarrow> (if trim s \<noteq> [] then trim s else []) | _ \<Rightarrow> [])"

text \<open>\<^verbatim>\<open>Number.parseInt(raw, 10)\<close> of a string: the integer its longest numeric prefix denotes.\<close>

definition parseInt :: "string \<Rightarrow> int option" where
  "parseInt s0 =
     (let s = dropWhile isWhiteSpace s0;
          neg = (s \<noteq> [] \<and> hd s = CHR ''-'');
          s1 = (if s \<noteq> [] \<and> (hd s = CHR ''-'' \<or> hd s = CHR ''+'') then tl s else s);
          ds = takeWhile isDigit s1
      in if ds = [] then None
         else Some ((if neg then - 1 else 1) * digitsValue ds))"

definition parseId :: "string \<Rightarrow> int option" where
  "parseId raw = (case parseInt raw of None \<Rightarrow> None | Some i \<Rightarrow> if i > 0 then Some i else None)"

text \<open>\<^verbatim>\<open>Number(raw)\<close>.\<close>

definition ToNumber :: "platform \<Rightarrow> jsval \<Rightarrow> jsnum" where
  "ToNumber pf v =
     (case v of
        JUndefined \<Rightarrow> NonInteger
      | JNull \<Rightarrow> Integer 0
      | JBool b \<Rightarrow> Integer (if b then 1 else 0)
      | JNum n \<Rightarrow> n
      | JStr s \<Rightarrow> StringToNumber pf s
      | JObject s \<Rightarrow> StringToNumber pf s)"

definition parseInterval :: "platform \<Rightarrow> jsval \<Rightarrow> int option" where
  "parseInterval pf raw =
     (case ToNumber pf raw of
        NonInteger \<Rightarrow> None
      | Integer v \<Rightarrow> if v \<ge> 1 \<and> v \<le> 365 then Some v else None)"

text \<open>
  \<^verbatim>\<open>parseDateOrNull\<close> answers null, a string, or undefined for an input it rejects.
\<close>

definition parseDateOrNull :: "platform \<Rightarrow> jsval \<Rightarrow> jsval" where
  "parseDateOrNull pf raw =
     (case raw of
        JUndefined \<Rightarrow> JNull
      | JNull \<Rightarrow> JNull
      | JStr s \<Rightarrow>
          if s = [] then JNull
          else (case getTime (Date_new pf s) of
                  None \<Rightarrow> JUndefined
                | Some t \<Rightarrow> JStr (toISOString t))
      | _ \<Rightarrow> JUndefined)"

definition formatNotes :: "jsval \<Rightarrow> string" where
  "formatNotes raw = (case raw of JStr s \<Rightarrow> trim s | _ \<Rightarrow> [])"

text \<open>
  A request body, by the five properties the handlers read (undefined when the body
  lacks one); a request; and the handlers, each returning the database it leaves and
  the status it answers.  A thrown error is answered with status 500.
\<close>

record body =
  name_b :: jsval
  species_b :: jsval
  wateringIntervalDays_b :: jsval
  notes_b :: jsval
  lastWateredAt_b :: jsval

datatype request =
    GET_plants jsval
  | POST_plants body
  | PUT_plant string body
  | PATCH_plant string body
  | DELETE_plant string

definition nullable :: "jsval \<Rightarrow> string option" where
  "nullable v = (case v of JStr s \<Rightarrow> Some s | _ \<Rightarrow> None)"

text \<open>The status answered: \<open>found\<close> for a record, \<open>missing\<close> for null, 500 for a throw.\<close>

definition status_of :: "int \<Rightarrow> int \<Rightarrow> error + plant option \<Rightarrow> int" where
  "status_of found missing r =
     (case r of Inl e \<Rightarrow> 500 | Inr None \<Rightarrow> missing | Inr (Some p) \<Rightarrow> found)"

definition get_plants :: "platform \<Rightarrow> int \<Rightarrow> database \<Rightarrow> jsval \<Rightarrow> database \<times> int" where
  "get_plants pf now db q =
     (let filter0 = (case q of JStr s \<Rightarrow> JStr (map asciiLower s) | _ \<Rightarrow> JUndefined)
      in (db, case listPlants pf now db filter0 of Inl e \<Rightarrow> 500 | Inr ps \<Rightarrow> 200))"

definition post_plants :: "platform \<Rightarrow> int \<Rightarrow> database \<Rightarrow> body \<Rightarrow> database \<times> int" where
  "post_plants pf now db b =
     (let name0 = formatText (name_b b);
          species0 = formatText (species_b b);
          interval = parseInterval pf (wateringIntervalDays_b b);
          notes0 = formatNotes (notes_b b);
          lastWateredAt0 = parseDateOrNull pf (lastWateredAt_b b)
      in if name0 = [] then (db, 400)
         else if species0 = [] then (db, 400)
         else (case interval of
                 None \<Rightarrow> (db, 400)
               | Some n \<Rightarrow>
                   if lastWateredAt0 = JUndefined then (db, 400)
                   else (case createPlant pf now db name0 species0 n (nullable lastWateredAt0) notes0 of
                           (db', r) \<Rightarrow> (db', status_of 201 500 r))))"

definition put_plant :: "platform \<Rightarrow> database \<Rightarrow> string \<Rightarrow> body \<Rightarrow> database \<times> int" where
  "put_plant pf db rawId b =
     (case parseId rawId of
        None \<Rightarrow> (db, 400)
      | Some i \<Rightarrow>
          (let name0 = formatText (name_b b);
               species0 = formatText (species_b b);
               interval = parseInterval pf (wateringIntervalDays_b b);
               notes0 = formatNotes (notes_b b);
               lastWateredAt0 = parseDateOrNull pf (lastWateredAt_b b)
           in if name0 = [] \<or> species0 = [] \<or> interval = None then (db, 400)
              else if lastWateredAt0 = JUndefined then (db, 400)
              else (case interval of
                      None \<Rightarrow> (db, 400)
                    | Some n \<Rightarrow>
                        (case updatePlant pf db i
                                \<lparr> name_upd = JStr name0,
                                  species_upd = JStr species0,
                                  wateringIntervalDays_upd = JNum (Integer n),
                                  lastWateredAt_upd = lastWateredAt0,
                                  notes_upd = JStr notes0 \<rparr> of
                           (db', r) \<Rightarrow> (db', status_of 200 404 r)))))"

text \<open>
  PATCH builds its payload property by property.  A JSON body never holds an
  undefined value, so \<^verbatim>\<open>hasOwnProperty\<close> is "not undefined".
\<close>

definition patch_plant :: "platform \<Rightarrow> database \<Rightarrow> string \<Rightarrow> body \<Rightarrow> database \<times> int" where
  "patch_plant pf db rawId b =
     (case parseId rawId of
        None \<Rightarrow> (db, 400)
      | Some i \<Rightarrow>
          if (case name_b b of JStr s \<Rightarrow> formatText (name_b b) = [] | _ \<Rightarrow> False) then (db, 400)
          else if (case species_b b of JStr s \<Rightarrow> formatText (species_b b) = [] | _ \<Rightarrow> False) then (db, 400)
          else if wateringIntervalDays_b b \<noteq> JUndefined
                  \<and> parseInterval pf (wateringIntervalDays_b b) = None then (db, 400)
          else if lastWateredAt_b b \<noteq> JUndefined
                  \<and> parseDateOrNull pf (lastWateredAt_b b) = JUndefined then (db, 400)
          else
            (let payload =
                   \<lparr> name_upd = (case name_b b of JStr s \<Rightarrow> JStr (formatText (name_b b)) | _ \<Rightarrow> JUndefined),
                     species_upd = (case species_b b of JStr s \<Rightarrow> JStr (formatText (species_b b)) | _ \<Rightarrow> JUndefined),
                     wateringIntervalDays_upd =
                       (if wateringIntervalDays_b b \<noteq> JUndefined
                        then (case parseInterval pf (wateringIntervalDays_b b) of
                                Some n \<Rightarrow> JNum (Integer n) | None \<Rightarrow> JUndefined)
                        else JUndefined),
                     lastWateredAt_upd =
                       (if lastWateredAt_b b \<noteq> JUndefined
                        then parseDateOrNull pf (lastWateredAt_b b) else JUndefined),
                     notes_upd =
                       (if notes_b b \<noteq> JUndefined then JStr (formatNotes (notes_b b)) else JUndefined) \<rparr>
             in if (case name_b b of JStr s \<Rightarrow> False | _ \<Rightarrow> True)
                   \<and> (case species_b b of JStr s \<Rightarrow> False | _ \<Rightarrow> True)
                   \<and> wateringIntervalDays_b b = JUndefined
                   \<and> notes_b b = JUndefined
                   \<and> lastWateredAt_b b = JUndefined
                then (db, 400)
                else (case updatePlant pf db i payload of (db', r) \<Rightarrow> (db', status_of 200 404 r))))"

definition delete_plant :: "database \<Rightarrow> string \<Rightarrow> database \<times> int" where
  "delete_plant db rawId =
     (case parseId rawId of
        None \<Rightarrow> (db, 400)
      | Some i \<Rightarrow> (case deletePlant db i of (db', removed) \<Rightarrow> (db', if removed then 204 else 404)))"

definition handle :: "platform \<Rightarrow> int \<Rightarrow> database \<Rightarrow> request \<Rightarrow> database \<times> int" where
  "handle pf now db req =
     (case req of
        GET_plants q \<Rightarrow> get_plants pf now db q
      | POST_plants b \<Rightarrow> post_plants pf now db b
      | PUT_plant rawId b \<Rightarrow> put_plant pf db rawId b
      | PATCH_plant rawId b \<Rightarrow> patch_plant pf db rawId b
      | DELETE_plant rawId \<Rightarrow> delete_plant db rawId)"

definition empty_database :: database where
  "empty_database = \<lparr> plants = [], sqlite_sequence = 0 \<rparr>"

text \<open>The states the service reaches from an empty table, request after request.\<close>

inductive reachable :: "platform \<Rightarrow> database \<Rightarrow> bool" for pf :: platform where
  initial: "reachable pf empty_database"
| request: "reachable pf db \<Longrightarrow> reachable pf (fst (handle pf now db req))"

section \<open>The display layer (\<^verbatim>\<open>App.tsx\<close>)\<close>

text \<open>
  \<^verbatim>\<open>Date.now()\<close> is the argument \<open>now\<close>.  An empty string is falsy, as null is.
\<close>

definition isDueNow :: "platform \<Rightarrow> int \<Rightarrow> plant \<Rightarrow> bool" where
  "isDueNow pf now p =
     (if lastWateredAt p = None \<or> lastWateredAt p = Some [] then True
      else (case nextWateringDueAt' p of
              None \<Rightarrow> True
            | Some next \<Rightarrow>
                if next = [] then True
                else (case getTime (Date_new pf next) of
                        None \<Rightarrow> True
                      | Some dueTime \<Rightarrow> dueTime \<le> now)))"

datatype tone = Due | Soon | Ok

record label =
  text' :: string
  tone :: tone

text \<open>
  \<^verbatim>\<open>Math.ceil((dueDate.getTime() - Date.now()) / msPerDay)\<close>, on integers: the quotient of
  two time values is taken exactly.
\<close>

definition ceilDays :: "int \<Rightarrow> int" where
  "ceilDays ms = - ((- ms) div msPerDay)"

definition dueLabel :: "platform \<Rightarrow> int \<Rightarrow> plant \<Rightarrow> label" where
  "dueLabel pf now p =
     (if lastWateredAt p = None \<or> lastWateredAt p = Some []
      then \<lparr> text' = ''Needs water'', tone = Due \<rparr>
      else (case nextWateringDueAt' p of
              None \<Rightarrow> \<lparr> text' = ''Needs water'', tone = Due \<rparr>
            | Some next \<Rightarrow>
                if next = [] then \<lparr> text' = ''Needs water'', tone = Due \<rparr>
                else (case getTime (Date_new pf next) of
                        None \<Rightarrow> \<lparr> text' = ''Needs water'', tone = Due \<rparr>
                      | Some dueTime \<Rightarrow>
                          (let diffDays = ceilDays (dueTime - now)
                           in if diffDays \<le> 0
                              then \<lparr> text' = (if diffDays < 0
                                               then ''Overdue '' @ decimal (abs diffDays) @ ''d''
                                               else ''Due today''),
                                     tone = Due \<rparr>
                              else if diffDays \<le> 2
                              then \<lparr> text' = ''Due in '' @ decimal diffDays @ ''d'',
                                     tone = Soon \<rparr>
                              else \<lparr> text' = ''Due in '' @ decimal diffDays @ ''d'',
                                     tone = Ok \<rparr>))))"

section \<open>Sample data\<close>

text \<open>
  A host in UTC whose fallback date parser and string-to-number conversion accept
  nothing, a table of two plants, an update and a request body.  The theorems below
  hold for every host and every table; these are the inputs at which they are
  instantiated.
\<close>

definition utc_host :: platform where
  "utc_host = \<lparr> LocalTZA = (\<lambda>t isUTC. 0), legacyDateParse = (\<lambda>s. None),
                 StringToNumber = (\<lambda>s. NonInteger), julianDayText = (\<lambda>s. None) \<rparr>"

definition sample_rows :: "row list" where
  "sample_rows =
     [\<lparr> row_id = 1, row_name = ''Fern'', row_species = ''Boston fern'',
        watering_interval_days = 7, last_watered_at = Some ''2024-01-01T00:00:00.000Z'',
        row_notes = [], created_at = ''2024-01-01 00:00:00'' \<rparr>,
      \<lparr> row_id = 2, row_name = ''Cactus'', row_species = ''Saguaro'',
        watering_interval_days = 30, last_watered_at = None,
        row_notes = ''south window'', created_at = ''2024-01-02 00:00:00'' \<rparr>]"

definition sample_database :: database where
  "sample_database = \<lparr> plants = sample_rows, sqlite_sequence = 2 \<rparr>"

definition sample_updates :: updates where
  "sample_updates =
     \<lparr> name_upd = JStr ''Ivy'', species_upd = JUndefined,
       wateringIntervalDays_upd = JNum (Integer 10), lastWateredAt_upd = JNull,
       notes_upd = JUndefined \<rparr>"

definition sample_body :: body where
  "sample_body =
     \<lparr> name_b = JStr '' Fern '', species_b = JStr ''Boston fern'',
       wateringIntervalDays_b = JNum (Integer 7), notes_b = JUndefined,
       lastWateredAt_b = JStr ''2024-01-01T00:00:00.000Z'' \<rparr>"

text \<open>The two sample rows as \<^verbatim>\<open>mapRow\<close> returns them on that host.\<close>

definition fern_plant :: plant where
  "fern_plant =
     \<lparr> id' = 1, name = ''Fern'', species = ''Boston fern'', wateringIntervalDays = 7,
       lastWateredAt = Some ''2024-01-01T00:00:00.000Z'', notes' = [],
       createdAt = ''2024-01-01 00:00:00'',
       nextWateringDueAt' = Some ''2024-01-08T00:00:00.000Z'' \<rparr>"

definition cactus_plant :: plant where
  "cactus_plant =
     \<lparr> id' = 2, name = ''Cactus'', species = ''Saguaro'', wateringIntervalDays = 30,
       lastWateredAt = None, notes' = ''south window'',
       createdAt = ''2024-01-02 00:00:00'', nextWateringDueAt' = None \<rparr>"



text \<open>
  Two request bodies the validation layer accepts: a plant last watered at noon of
  the last day of the year 9999, and one last watered at the largest time value a
  \<^verbatim>\<open>Date\<close> can hold.
\<close>

definition far_body :: body where
  "far_body =
     \<lparr> name_b = JStr ''Oak'', species_b = JStr ''Quercus'',
       wateringIntervalDays_b = JNum (Integer 1), notes_b = JUndefined,
       lastWateredAt_b = JStr ''9999-12-31T12:00:00.000Z'' \<rparr>"

definition far_row :: row where
  "far_row =
     \<lparr> row_id = 1, row_name = ''Oak'', row_species = ''Quercus'',
       watering_interval_days = 1, last_watered_at = Some ''9999-12-31T12:00:00.000Z'',
       row_notes = [], created_at = ''2024-01-02 00:00:00'' \<rparr>"

definition far_plant :: plant where
  "far_plant =
     \<lparr> id' = 1, name = ''Oak'', species = ''Quercus'', wateringIntervalDays = 1,
       lastWateredAt = Some ''9999-12-31T12:00:00.000Z'', notes' = [],
       createdAt = ''2024-01-02 00:00:00'',
       nextWateringDueAt' = Some ''+010000-01-01T12:00:00.000Z'' \<rparr>"

definition max_body :: body where
  "max_body =
     \<lparr> name_b = JStr ''Yew'', species_b = JStr ''Taxus'',
       wateringIntervalDays_b = JNum (Integer 1), notes_b = JUndefined,
       lastWateredAt_b = JStr ''+275760-09-13T00:00:00.000Z'' \<rparr>"

definition max_row :: row where
  "max_row =
     \<lparr> row_id = 1, row_name = ''Yew'', row_species = ''Taxus'',
       watering_interval_days = 1, last_watered_at = Some ''+275760-09-13T00:00:00.000Z'',
       row_notes = [], created_at = ''2024-01-02 00:00:00'' \<rparr>"

text \<open>
  A host whose zone moves its clocks forward by an hour at 2024-03-31T01:00:00Z (local
  times of the skipped hour are read with the offset before the change), a plant
  watered at noon of the day before with an interval of one day, and the record read
  from it on that host.
\<close>

definition dst_host :: platform where
  "dst_host = \<lparr> LocalTZA = (\<lambda>t isUTC. if t < (if isUTC then 1711846800000 else 1711850400000)
                                       then 0 else 3600000),
                 legacyDateParse = (\<lambda>s. None),
                 StringToNumber = (\<lambda>s. NonInteger), julianDayText = (\<lambda>s. None) \<rparr>"

definition dst_row :: row where
  "dst_row =
     \<lparr> row_id = 4, row_name = ''Mint'', row_species = ''Mentha'',
       watering_interval_days = 1, last_watered_at = Some ''2024-03-30T12:00:00.000Z'',
       row_notes = [], created_at = ''2024-03-30 12:00:00'' \<rparr>"

definition dst_plant :: plant where
  "dst_plant =
     \<lparr> id' = 4, name = ''Mint'', species = ''Mentha'', wateringIntervalDays = 1,
       lastWateredAt = Some ''2024-03-30T12:00:00.000Z'', notes' = [],
       createdAt = ''2024-03-30 12:00:00'',
       nextWateringDueAt' = Some ''2024-03-31T11:00:00.000Z'' \<rparr>"

text \<open>
  A record whose \<^verbatim>\<open>nextWateringDueAt\<close> is not a date, and a row whose \<^verbatim>\<open>last_watered_at\<close>
  is not one, with the record read from it (neither comes out of the HTTP layer,
  which stores \<^verbatim>\<open>toISOString\<close> strings only).
\<close>

definition garbled_plant :: plant where
  "garbled_plant =
     \<lparr> id' = 5, name = ''Sage'', species = ''Salvia'', wateringIntervalDays = 3,
       lastWateredAt = Some ''2024-01-01T00:00:00.000Z'', notes' = [],
       createdAt = ''2024-01-01 00:00:02'', nextWateringDueAt' = Some ''soon'' \<rparr>"

definition stale_row :: row where
  "stale_row =
     \<lparr> row_id = 6, row_name = ''Thyme'', row_species = ''Thymus'',
       watering_interval_days = 3, last_watered_at = Some ''last week'',
       row_notes = [], created_at = ''2024-01-01 00:00:03'' \<rparr>"

definition stale_plant :: plant where
  "stale_plant =
     \<lparr> id' = 6, name = ''Thyme'', species = ''Thymus'', wateringIntervalDays = 3,
       lastWateredAt = Some ''last week'', notes' = [],
       createdAt = ''2024-01-01 00:00:03'', nextWateringDueAt' = None \<rparr>"

text \<open>The invariant of the table: every interval is between 1 and 365.\<close>

definition intervals_ok :: "database \<Rightarrow> bool" where
  "intervals_ok db \<longleftrightarrow>
     (\<forall>r \<in> set (plants db). 1 \<le> watering_interval_days r \<and> watering_interval_days r \<le> 365)"

text \<open>
  The specification's words for the due date, "\<^verbatim>\<open>lastWateredAt\<close> advanced by
  \<^verbatim>\<open>intervalDays\<close> whole calendar days": on the host's local calendar the date moves
  by \<open>n\<close> days and the time of day stays, and the result is read back as an instant.
\<close>

definition advanceCalendarDays :: "platform \<Rightarrow> int \<Rightarrow> int \<Rightarrow> int" where
  "advanceCalendarDays pf t n =
     UTC pf (MakeDate (Day (LocalTime pf t) + n) (TimeWithinDay (LocalTime pf t)))"




section \<open>Reading and updating records\<close>

lemma mapRow_fields:
  "mapRow pf r = Inr p \<Longrightarrow>
     id' p = row_id r \<and> name p = row_name r \<and> species p = row_species r
     \<and> wateringIntervalDays p = watering_interval_days r \<and> lastWateredAt p = last_watered_at r
     \<and> notes' p = row_notes r \<and> createdAt p = created_at r"
  by (auto simp: mapRow_def split: sum.splits)



lemma getPlant_found:
  assumes "getPlant pf db i = Inr (Some existing)"
  obtains r0 where "find (\<lambda>r. row_id r = i) (plants db) = Some r0" "mapRow pf r0 = Inr existing"
  using assms by (auto simp: getPlant_def split: option.splits sum.splits)

lemma update_row_frame:
  "row_id (update_row a b c d e i r) = row_id r"
  "created_at (update_row a b c d e i r) = created_at r"
  "row_id r \<noteq> i \<Longrightarrow> update_row a b c d e i r = r"
  by (simp_all add: update_row_def)

lemma updatePlant_plants:
  "plants (fst (updatePlant pf db i u)) = plants db
   \<or> (\<exists>a b c d e. plants (fst (updatePlant pf db i u)) = map (update_row a b c d e i) (plants db))"
proof (cases "getPlant pf db i")
  case (Inl e)
  then show ?thesis by (simp add: updatePlant_def)
next
  case (Inr found)
  show ?thesis
  proof (cases found)
    case None
    with Inr show ?thesis by (simp add: updatePlant_def)
  next
    case (Some existing)
    with Inr have "\<exists>a b c d e. plants (fst (updatePlant pf db i u)) = map (update_row a b c d e i) (plants db)"
      by (simp add: updatePlant_def Let_def) blast
    then show ?thesis ..
  qed
qed

lemma updatePlant_sequence:
  "sqlite_sequence (fst (updatePlant pf db i u)) = sqlite_sequence db"
  by (auto simp: updatePlant_def Let_def split: sum.splits option.splits)

text \<open>
  Claim C9.  Whatever the updates object holds, \<^verbatim>\<open>updatePlant\<close> leaves every row's id
  and creation time as they were, leaves every row with another id exactly as it
  was, adds and removes no row, and does not touch the rowid counter.  Old and new
  table are compared row by row, position by position.
\<close>

theorem updatePlant_frame:
  "list_all2 (\<lambda>r r'. row_id r' = row_id r \<and> created_at r' = created_at r
                      \<and> (row_id r \<noteq> i \<longrightarrow> r' = r))
     (plants db) (plants (fst (updatePlant pf db i u)))
   \<and> sqlite_sequence (fst (updatePlant pf db i u)) = sqlite_sequence db"
proof -
  let ?R = "\<lambda>r r'. row_id r' = row_id r \<and> created_at r' = created_at r \<and> (row_id r \<noteq> i \<longrightarrow> r' = r)"
  have same: "list_all2 ?R (plants db) (plants db)"
    by (simp add: list.rel_refl)
  have upd: "list_all2 ?R (plants db) (map (update_row a b c d e i) (plants db))" for a b c d e
    by (simp add: list_all2_map2 update_row_frame list.rel_refl)
  from updatePlant_plants[of pf db i u] same upd
  have "list_all2 ?R (plants db) (plants (fst (updatePlant pf db i u)))"
    by (elim disjE exE) simp_all
  then show ?thesis by (simp add: updatePlant_sequence)
qed

lemma sample_update_result:
  "plants (fst (updatePlant utc_host sample_database 1 sample_updates)) =
     [\<lparr> row_id = 1, row_name = ''Ivy'', row_species = ''Boston fern'',
        watering_interval_days = 10, last_watered_at = None,
        row_notes = [], created_at = ''2024-01-01 00:00:00'' \<rparr>,
      \<lparr> row_id = 2, row_name = ''Cactus'', row_species = ''Saguaro'',
        watering_interval_days = 30, last_watered_at = None,
        row_notes = ''south window'', created_at = ''2024-01-02 00:00:00'' \<rparr>]"
  by code_simp

theorem updatePlant_frame_witness:
  "list_all2 (\<lambda>r r'. row_id r' = row_id r \<and> created_at r' = created_at r
                      \<and> (row_id r \<noteq> 1 \<longrightarrow> r' = r))
     (plants sample_database) (plants (fst (updatePlant utc_host sample_database 1 sample_updates)))
   \<and> row_id (sample_rows ! 1) \<noteq> 1
   \<and> plants (fst (updatePlant utc_host sample_database 1 sample_updates)) ! 1 = sample_rows ! 1
   \<and> row_name (plants (fst (updatePlant utc_host sample_database 1 sample_updates)) ! 0) = ''Ivy''"
  using updatePlant_frame[where i = 1 and db = sample_database and pf = utc_host and u = sample_updates]
  by (simp add: sample_update_result sample_rows_def)


lemma sample_update_absent:
  "updatePlant utc_host sample_database 5 sample_updates = (sample_database, Inr None)"
  by code_simp


section \<open>The interval invariant\<close>

lemma parseInterval_range:
  "parseInterval pf raw = Some n \<Longrightarrow> 1 \<le> n \<and> n \<le> 365"
  by (auto simp: parseInterval_def split: jsnum.splits if_splits)

lemma createPlant_intervals:
  "intervals_ok db \<Longrightarrow> 1 \<le> n \<Longrightarrow> n \<le> 365 \<Longrightarrow>
     intervals_ok (fst (createPlant pf now db a b n lw c))"
  by (auto simp: createPlant_def Let_def intervals_ok_def)

lemma getPlant_interval:
  assumes "intervals_ok db" "getPlant pf db i = Inr (Some existing)"
  shows "1 \<le> wateringIntervalDays existing \<and> wateringIntervalDays existing \<le> 365"
proof -
  from assms(2) obtain r0 where r0: "find (\<lambda>r. row_id r = i) (plants db) = Some r0"
      "mapRow pf r0 = Inr existing"
    by (auto elim: getPlant_found)
  from r0(1) have "r0 \<in> set (plants db)"
    by (auto simp: find_Some_iff)
  with assms(1) mapRow_fields[OF r0(2)] show ?thesis
    by (simp add: intervals_ok_def)
qed

lemma updatePlant_intervals:
  assumes "intervals_ok db"
      and "\<And>k. wateringIntervalDays_upd u = JNum (Integer k) \<Longrightarrow> 1 \<le> k \<and> k \<le> 365"
  shows "intervals_ok (fst (updatePlant pf db i u))"
proof (cases "getPlant pf db i")
  case (Inl e)
  with assms(1) show ?thesis by (simp add: updatePlant_def)
next
  case (Inr found)
  show ?thesis
  proof (cases found)
    case None
    with Inr assms(1) show ?thesis by (simp add: updatePlant_def)
  next
    case (Some existing)
    have ex: "1 \<le> wateringIntervalDays existing \<and> wateringIntervalDays existing \<le> 365"
      using getPlant_interval[OF assms(1)] Inr Some by simp
    have new: "1 \<le> (case wateringIntervalDays_upd u of JNum (Integer k) \<Rightarrow> k | _ \<Rightarrow> wateringIntervalDays existing)
             \<and> (case wateringIntervalDays_upd u of JNum (Integer k) \<Rightarrow> k | _ \<Rightarrow> wateringIntervalDays existing) \<le> 365"
      using ex assms(2) by (auto split: jsval.splits jsnum.splits)
    have "1 \<le> watering_interval_days (update_row a b n d e i r)
          \<and> watering_interval_days (update_row a b n d e i r) \<le> 365"
      if "r \<in> set (plants db)" "1 \<le> n \<and> n \<le> 365" for a b n d e r
      using that assms(1) by (simp add: update_row_def intervals_ok_def)
    with new show ?thesis
      using Inr Some by (simp add: updatePlant_def Let_def intervals_ok_def)
  qed
qed

lemma deletePlant_intervals:
  "intervals_ok db \<Longrightarrow> intervals_ok (fst (deletePlant db i))"
  by (simp add: deletePlant_def intervals_ok_def)

lemma post_plants_intervals:
  assumes "intervals_ok db"
  shows "intervals_ok (fst (post_plants pf now db b))"
proof (cases "parseInterval pf (wateringIntervalDays_b b)")
  case None
  with assms show ?thesis by (simp add: post_plants_def Let_def)
next
  case (Some n)
  from parseInterval_range[OF Some] assms
  have "intervals_ok (fst (createPlant pf now db a c n lw d))" for a c lw d
    by (simp add: createPlant_intervals)
  with Some assms show ?thesis
    by (simp add: post_plants_def Let_def case_prod_beta)
qed

lemma put_plant_intervals:
  assumes "intervals_ok db"
  shows "intervals_ok (fst (put_plant pf db rawId b))"
proof (cases "parseInterval pf (wateringIntervalDays_b b)")
  case None
  with assms show ?thesis by (simp add: put_plant_def Let_def split: option.splits)
next
  case (Some n)
  have "intervals_ok (fst (updatePlant pf db i
          \<lparr> name_upd = a, species_upd = c, wateringIntervalDays_upd = JNum (Integer n),
            lastWateredAt_upd = lw, notes_upd = d \<rparr>))" for i a c lw d
    using parseInterval_range[OF Some] by (intro updatePlant_intervals[OF assms]) simp
  with Some assms show ?thesis
    by (simp add: put_plant_def Let_def case_prod_beta split: option.splits)
qed

lemma patch_plant_intervals:
  assumes "intervals_ok db"
  shows "intervals_ok (fst (patch_plant pf db rawId b))"
  unfolding patch_plant_def Let_def
  using assms
  by (auto simp: case_prod_beta split: option.splits if_splits
           intro!: updatePlant_intervals dest: parseInterval_range)

lemma delete_plant_intervals:
  "intervals_ok db \<Longrightarrow> intervals_ok (fst (delete_plant db rawId))"
  by (simp add: delete_plant_def case_prod_beta deletePlant_intervals split: option.splits)

lemma handle_intervals:
  assumes "intervals_ok db"
  shows "intervals_ok (fst (handle pf now db req))"
  using assms
  by (cases req)
     (simp_all add: handle_def get_plants_def Let_def post_plants_intervals put_plant_intervals
        patch_plant_intervals delete_plant_intervals)

text \<open>
  Claim C8.  In every state the service reaches from the empty table by GET, POST,
  PUT, PATCH and DELETE requests, whatever their bodies, every row's
  \<^verbatim>\<open>watering_interval_days\<close> is an integer between 1 and 365.
\<close>

theorem reachable_intervals:
  "reachable pf db \<Longrightarrow>
     \<forall>r \<in> set (plants db). 1 \<le> watering_interval_days r \<and> watering_interval_days r \<le> 365"
proof (induction rule: reachable.induct)
  case initial
  show ?case by (simp add: empty_database_def)
next
  case (request db now req)
  then have "intervals_ok db" by (simp add: intervals_ok_def)
  then have "intervals_ok (fst (handle pf now db req))" by (rule handle_intervals)
  then show ?case by (simp add: intervals_ok_def)
qed

lemma sample_post_result:
  "plants (fst (handle utc_host 1704153600200 empty_database (POST_plants sample_body))) =
     [\<lparr> row_id = 1, row_name = ''Fern'', row_species = ''Boston fern'',
        watering_interval_days = 7, last_watered_at = Some ''2024-01-01T00:00:00.000Z'',
        row_notes = [], created_at = ''2024-01-02 00:00:00'' \<rparr>]"
  by code_simp

theorem reachable_intervals_witness:
  "reachable utc_host (fst (handle utc_host 1704153600200 empty_database (POST_plants sample_body)))
   \<and> map watering_interval_days
       (plants (fst (handle utc_host 1704153600200 empty_database (POST_plants sample_body)))) = [7]
   \<and> list_all (\<lambda>r. 1 \<le> watering_interval_days r \<and> watering_interval_days r \<le> 365)
       (plants (fst (handle utc_host 1704153600200 empty_database (POST_plants sample_body))))"
proof -
  have r: "reachable utc_host
             (fst (handle utc_host 1704153600200 empty_database (POST_plants sample_body)))"
    by (rule reachable.request[OF reachable.initial])
  from reachable_intervals[OF r] r show ?thesis
    by (simp add: sample_post_result list_all_iff)
qed

section \<open>The order of a listing\<close>

lemma listed_before_total: "listed_before a b \<or> listed_before b a"
  by (auto simp: listed_before_def)

lemma listed_before_trans: "listed_before a b \<Longrightarrow> listed_before b c \<Longrightarrow> listed_before a c"
  by (auto simp: listed_before_def)

lemma set_insert_row: "set (insert_row r xs) = insert r (set xs)"
  by (induction xs) auto

lemma sorted_insert_row:
  "sorted_wrt listed_before xs \<Longrightarrow> sorted_wrt listed_before (insert_row r xs)"
proof (induction xs)
  case Nil
  show ?case by simp
next
  case (Cons x xs)
  show ?case
  proof (cases "listed_before r x")
    case True
    with Cons.prems show ?thesis
      by (auto intro: listed_before_trans)
  next
    case False
    then have "listed_before x r" using listed_before_total by blast
    with Cons False show ?thesis
      by (auto simp: set_insert_row)
  qed
qed

lemma sorted_order_by: "sorted_wrt listed_before (order_by rs)"
  by (induction rs) (simp_all add: order_by_def sorted_insert_row)

lemma set_order_by: "set (order_by rs) = set rs"
  by (induction rs) (simp_all add: order_by_def set_insert_row)

lemma mapRows_rel:
  "mapRows pf rs = Inr ps \<Longrightarrow> list_all2 (\<lambda>r p. mapRow pf r = Inr p) rs ps"
  by (induction rs arbitrary: ps) (auto split: sum.splits)

lemma mapRows_returns:
  "(\<forall>r \<in> set rs. \<exists>p. mapRow pf r = Inr p) \<Longrightarrow> \<exists>ps. mapRows pf rs = Inr ps"
  by (induction rs) (auto split: sum.splits)

lemma sorted_wrt_rel:
  assumes "list_all2 R xs ys" "sorted_wrt P xs"
      and "\<And>x x' y y'. R x y \<Longrightarrow> R x' y' \<Longrightarrow> P x x' \<Longrightarrow> Q y y'"
  shows "sorted_wrt Q ys"
  using assms(1,2)
proof (induction rule: list_all2_induct)
  case Nil
  show ?case by simp
next
  case (Cons x xs y ys)
  have "Q y y'" if "y' \<in> set ys" for y'
  proof -
    from that Cons.hyps(2) obtain x' where "x' \<in> set xs" "R x' y'"
      by (metis list_all2_conv_all_nth in_set_conv_nth)
    with Cons.prems Cons.hyps(1) assms(3) show ?thesis by auto
  qed
  with Cons show ?case by simp
qed

text \<open>
  Claim C6.  Whatever the filter, the list \<^verbatim>\<open>listPlants\<close> returns is in descending order
  of \<^verbatim>\<open>createdAt\<close>, records created at the same time in descending order of id; and it
  does return a list whenever no row of the table makes \<^verbatim>\<open>mapRow\<close> throw.
\<close>

theorem listPlants_order:
  "(\<forall>ps. listPlants pf now db f = Inr ps \<longrightarrow>
       sorted_wrt (\<lambda>p q. createdAt p > createdAt q \<or> (createdAt p = createdAt q \<and> id' p \<ge> id' q)) ps)
   \<and> ((\<forall>r \<in> set (plants db). \<exists>p. mapRow pf r = Inr p) \<longrightarrow> (\<exists>ps. listPlants pf now db f = Inr ps))"
proof (intro conjI allI impI)
  fix ps
  assume "listPlants pf now db f = Inr ps"
  then have rel: "list_all2 (\<lambda>r p. mapRow pf r = Inr p)
                    (order_by (filter (where_clause pf now f) (plants db))) ps"
    by (simp add: listPlants_def mapRows_rel)
  show "sorted_wrt (\<lambda>p q. createdAt p > createdAt q \<or> (createdAt p = createdAt q \<and> id' p \<ge> id' q)) ps"
  proof (rule sorted_wrt_rel[OF rel sorted_order_by])
    fix x x' y y'
    assume "mapRow pf x = Inr y" "mapRow pf x' = Inr y'" "listed_before x x'"
    then show "createdAt y > createdAt y' \<or> (createdAt y = createdAt y' \<and> id' y \<ge> id' y')"
      using mapRow_fields[of pf x y] mapRow_fields[of pf x' y'] by (simp add: listed_before_def)
  qed
next
  assume "\<forall>r \<in> set (plants db). \<exists>p. mapRow pf r = Inr p"
  then have "\<forall>r \<in> set (order_by (filter (where_clause pf now f) (plants db))). \<exists>p. mapRow pf r = Inr p"
    by (simp add: set_order_by)
  then show "\<exists>ps. listPlants pf now db f = Inr ps"
    unfolding listPlants_def by (rule mapRows_returns)
qed

lemma sample_listing:
  "listPlants utc_host 1704153600200 sample_database JUndefined =
     Inr [\<lparr> id' = 2, name = ''Cactus'', species = ''Saguaro'', wateringIntervalDays = 30,
             lastWateredAt = None, notes' = ''south window'',
             createdAt = ''2024-01-02 00:00:00'', nextWateringDueAt' = None \<rparr>,
          \<lparr> id' = 1, name = ''Fern'', species = ''Boston fern'', wateringIntervalDays = 7,
             lastWateredAt = Some ''2024-01-01T00:00:00.000Z'', notes' = [],
             createdAt = ''2024-01-01 00:00:00'',
             nextWateringDueAt' = Some ''2024-01-08T00:00:00.000Z'' \<rparr>]"
  by code_simp

theorem listPlants_order_witness:
  "(\<exists>ps. listPlants utc_host 1704153600200 sample_database JUndefined = Inr ps
         \<and> map id' ps = [2, 1]
         \<and> sorted_wrt (\<lambda>p q. createdAt p > createdAt q
                              \<or> (createdAt p = createdAt q \<and> id' p \<ge> id' q)) ps)"
  using listPlants_order[of utc_host 1704153600200 sample_database JUndefined]
  by (simp add: sample_listing)

section \<open>Digits, days and years\<close>


lemma isDigit_digitChar: "isDigit (digitChar n)"
proof -
  have "0 \<le> n mod 10" "n mod 10 < 10" by simp_all
  then have "(48 + n mod 10) mod 256 = 48 + n mod 10" by simp
  then have "(of_char (digitChar n) :: int) = 48 + n mod 10"
    by (simp add: digitChar_def of_char_of)
  then show ?thesis by (simp add: isDigit_def)
qed

lemma of_char_digitChar: "(of_char (digitChar n) :: int) = 48 + n mod 10"
proof -
  have "0 \<le> n mod 10" "n mod 10 < 10" by simp_all
  then have "(48 + n mod 10) mod 256 = 48 + n mod 10" by simp
  then show ?thesis by (simp add: digitChar_def of_char_of)
qed

lemma digitValue_digitChar: "digitValue (digitChar n) = n mod 10"
  by (simp add: digitValue_def of_char_digitChar)

lemma length_pad: "length (pad k n) = k"
  by (induction k arbitrary: n) simp_all

lemma isDigit_pad: "list_all isDigit (pad k n)"
  by (induction k arbitrary: n) (simp_all add: isDigit_digitChar)

lemma digitsValue_snoc: "digitsValue (s @ [c]) = 10 * digitsValue s + digitValue c"
  by (simp add: digitsValue_def)

lemma digitsValue_pad: "digitsValue (pad k n) = n mod 10 ^ k"
proof (induction k arbitrary: n)
  case 0
  show ?case by (simp add: digitsValue_def)
next
  case (Suc k)
  have "n mod (10 * 10 ^ k) = 10 * ((n div 10) mod 10 ^ k) + n mod 10"
    using zmod_zmult2_eq[of "10 ^ k" n 10] by simp
  with Suc show ?case
    by (simp add: digitsValue_snoc digitValue_digitChar)
qed

lemma takeDigits_pad:
  "0 \<le> x \<Longrightarrow> x < 10 ^ k \<Longrightarrow> takeDigits k (pad k x @ r) = Some (x, r)"
  by (simp add: takeDigits_def length_pad isDigit_pad digitsValue_pad)

lemma div_bounds:
  fixes x k :: int
  assumes "0 < k"
  shows "k * (x div k) \<le> x" "x < k * (x div k) + k"
proof -
  have "x = k * (x div k) + x mod k" by simp
  moreover have "0 \<le> x mod k" "x mod k < k" using assms by simp_all
  ultimately show "k * (x div k) \<le> x" "x < k * (x div k) + k" by linarith+
qed

lemma div_succ:
  fixes x k :: int
  assumes "0 < k"
  shows "(x + 1) div k = x div k + (if k dvd x + 1 then 1 else 0)"
proof -
  have a: "x = k * (x div k) + x mod k" by simp
  have r: "0 \<le> x mod k" "x mod k < k" using assms by simp_all
  show ?thesis
  proof (cases "x mod k = k - 1")
    case True
    have "x + 1 = k * (x div k) + (k - 1) + 1" using a True by simp
    then have e: "x + 1 = k * (x div k + 1) + 0" by (simp add: algebra_simps)
    have "(x + 1) div k = x div k + 1" using int_div_pos_eq[OF e] assms by simp
    moreover have "(x + 1) mod k = 0" using int_mod_pos_eq[OF e] assms by simp
    ultimately show ?thesis by (simp add: mod_eq_0_iff_dvd)
  next
    case False
    with r have lt: "x mod k + 1 < k" by linarith
    have e: "x + 1 = k * (x div k) + (x mod k + 1)" using a by linarith
    have "(x + 1) div k = x div k" using int_div_pos_eq[OF e] r lt by simp
    moreover have "(x + 1) mod k = x mod k + 1" using int_mod_pos_eq[OF e] r lt by simp
    ultimately show ?thesis using r by (simp flip: mod_eq_0_iff_dvd)
  qed
qed

lemma DaysInYear_dvd:
  "DaysInYear y = (if \<not> 4 dvd y then 365 else if \<not> 100 dvd y then 366
                   else if \<not> 400 dvd y then 365 else 366)"
  by (simp add: DaysInYear_def mod_eq_0_iff_dvd)

lemma DayFromYear_Suc: "DayFromYear (y + 1) = DayFromYear y + DaysInYear y"
proof -
  have a: "(y + 1 - 1969) div 4 = (y - 1969) div 4 + (if 4 dvd y then 1 else 0)"
    using div_succ[of 4 "y - 1969"] dvd_diff_left_iff[of 4 1968 y] by (simp add: algebra_simps)
  have b: "(y + 1 - 1901) div 100 = (y - 1901) div 100 + (if 100 dvd y then 1 else 0)"
    using div_succ[of 100 "y - 1901"] dvd_diff_left_iff[of 100 1900 y] by (simp add: algebra_simps)
  have c: "(y + 1 - 1601) div 400 = (y - 1601) div 400 + (if 400 dvd y then 1 else 0)"
    using div_succ[of 400 "y - 1601"] dvd_diff_left_iff[of 400 1600 y] by (simp add: algebra_simps)
  have d: "100 dvd y \<Longrightarrow> 4 dvd y" "400 dvd y \<Longrightarrow> 100 dvd y"
    by (auto elim: dvd_trans[rotated])
  show ?thesis
    unfolding DayFromYear_def DaysInYear_dvd a b c using d by auto
qed


lemma DayFromYear_bounds:
  "146097 * (y - 1970) - 710 \<le> 400 * DayFromYear y"
  "400 * DayFromYear y \<le> 146097 * (y - 1970) + 590"
proof -
  define A where "A = (y - 1969) div 4"
  define B where "B = (y - 1901) div 100"
  define C where "C = (y - 1601) div 400"
  have a: "4 * A \<le> y - 1969" "y - 1969 < 4 * A + 4"
    unfolding A_def using div_bounds[of 4 "y - 1969"] by simp_all
  have b: "100 * B \<le> y - 1901" "y - 1901 < 100 * B + 100"
    unfolding B_def using div_bounds[of 100 "y - 1901"] by simp_all
  have c: "400 * C \<le> y - 1601" "y - 1601 < 400 * C + 400"
    unfolding C_def using div_bounds[of 400 "y - 1601"] by simp_all
  have d: "DayFromYear y = 365 * (y - 1970) + A - B + C"
    by (simp add: DayFromYear_def A_def B_def C_def)
  show "146097 * (y - 1970) - 710 \<le> 400 * DayFromYear y"
    unfolding d using a b c by (simp add: algebra_simps)
  show "400 * DayFromYear y \<le> 146097 * (y - 1970) + 590"
    unfolding d using a b c by (simp add: algebra_simps)
qed

lemma YearFromDay_spec:
  "DayFromYear (YearFromDay d) \<le> d" "d < DayFromYear (YearFromDay d + 1)"
proof -
  define e where "e = 1970 + (400 * d) div 146097"
  have e1: "146097 * (e - 1970) \<le> 400 * d" and e2: "400 * d < 146097 * (e - 1970) + 146097"
    unfolding e_def using div_bounds[of 146097 "400 * d"] by simp_all
  have lo: "DayFromYear (e - 1) \<le> d"
    using DayFromYear_bounds(2)[of "e - 1"] e1 by (simp add: algebra_simps)
  have hi: "d < DayFromYear (e + 2)"
    using DayFromYear_bounds(1)[of "e + 2"] e2 by (simp add: algebra_simps)
  have y: "YearFromDay d = (if DayFromYear (e + 1) \<le> d then e + 1 else if DayFromYear e \<le> d then e else e - 1)"
    by (simp add: YearFromDay_def e_def Let_def)
  have s: "e + 1 + 1 = e + 2" "e - 1 + 1 = e" by simp_all
  show "DayFromYear (YearFromDay d) \<le> d" using lo unfolding y by simp
  show "d < DayFromYear (YearFromDay d + 1)" using hi unfolding y by (simp add: s)
qed

lemma DaysInYear_range': "365 \<le> DaysInYear y" "DaysInYear y \<le> 366"
  by (simp_all add: DaysInYear_def)

lemma DayFromYear_mono: "y \<le> z \<Longrightarrow> DayFromYear y \<le> DayFromYear z"
proof (induction "nat (z - y)" arbitrary: z)
  case 0
  then show ?case by simp
next
  case (Suc n)
  then have "n = nat ((z - 1) - y)" "y \<le> z - 1" by linarith+
  then have "DayFromYear y \<le> DayFromYear (z - 1)" using Suc.hyps(1) by blast
  moreover have "DayFromYear z = DayFromYear (z - 1) + DaysInYear (z - 1)"
    using DayFromYear_Suc[of "z - 1"] by simp
  ultimately show ?case using DaysInYear_range'[of "z - 1"] by linarith
qed

lemma DayFromYear_strict: "y < z \<Longrightarrow> DayFromYear y + 365 \<le> DayFromYear z"
  using DayFromYear_mono[of "y + 1" z] DayFromYear_Suc[of y] DaysInYear_range'[of y] by linarith

text \<open>YearFromDay is the largest year whose first day is not after d.\<close>
lemma YearFromDay_unique:
  assumes "DayFromYear y \<le> d" "d < DayFromYear (y + 1)"
  shows "YearFromDay d = y"
proof (rule ccontr)
  assume ne: "YearFromDay d \<noteq> y"
  show False
  proof (cases "YearFromDay d < y")
    case True
    then have "DayFromYear (YearFromDay d + 1) \<le> DayFromYear y"
      by (intro DayFromYear_mono) simp
    with YearFromDay_spec(2)[of d] assms(1) show False by linarith
  next
    case False
    with ne have "DayFromYear (y + 1) \<le> DayFromYear (YearFromDay d)"
      by (intro DayFromYear_mono) simp
    with YearFromDay_spec(1)[of d] assms(2) show False by linarith
  qed
qed

lemma DayWithinYear_range: "0 \<le> DayWithinYear t" "DayWithinYear t < DaysInYear (YearFromTime t)"
  using YearFromDay_spec[of "Day t"] DayFromYear_Suc[of "YearFromTime t"]
  by (simp_all add: DayWithinYear_def YearFromTime_def)


lemma MonthFromTime_range: "0 \<le> MonthFromTime t" "MonthFromTime t \<le> 11"
  by (simp_all add: MonthFromTime_def Let_def)

lemma InLeapYear_cases: "InLeapYear t = 0 \<or> InLeapYear t = 1"
  by (simp add: InLeapYear_def)

lemma DayWithinYear_upper: "DayWithinYear t < 365 + InLeapYear t"
  using DayWithinYear_range(2)[of t] DaysInYear_range'[of "YearFromTime t"]
  by (simp add: InLeapYear_def split: if_splits)

lemma DateFromTime_range: "1 \<le> DateFromTime t" "DateFromTime t \<le> 31"
proof -
  define d where "d = DayWithinYear t"
  define l where "l = InLeapYear t"
  have f: "0 \<le> d" "d < 365 + l" "l = 0 \<or> l = 1"
    using DayWithinYear_range(1)[of t] DayWithinYear_upper[of t] InLeapYear_cases[of t]
    by (simp_all add: d_def l_def)
  have "1 \<le> DateFromTime t \<and> DateFromTime t \<le> 31"
    unfolding DateFromTime_def MonthFromTime_def Let_def d_def[symmetric] l_def[symmetric]
    using f by (auto split: if_splits)
  then show "1 \<le> DateFromTime t" "DateFromTime t \<le> 31" by simp_all
qed

lemma monthStart_Date:
  "monthStart (YearFromTime t) (MonthFromTime t) + DateFromTime t = DayWithinYear t + 1"
proof -
  define d where "d = DayWithinYear t"
  define l where "l = InLeapYear t"
  have l: "(if DaysInYear (YearFromTime t) = 366 then 1 else 0) = l"
    by (simp add: l_def InLeapYear_def)
  show ?thesis
    unfolding monthStart_def DateFromTime_def MonthFromTime_def Let_def l d_def[symmetric] l_def[symmetric]
    by simp
qed

lemma MakeDay_of_time:
  "MakeDay (YearFromTime t) (MonthFromTime t) (DateFromTime t + n) = Day t + n"
proof -
  have m: "MonthFromTime t div 12 = 0" "MonthFromTime t mod 12 = MonthFromTime t"
    using MonthFromTime_range[of t] by simp_all
  show ?thesis
    using monthStart_Date[of t] by (simp add: MakeDay_def m Let_def DayWithinYear_def)
qed

lemma MakeDate_Day: "MakeDate (Day t + n) (TimeWithinDay t) = t + n * msPerDay"
  by (simp add: MakeDate_def Day_def TimeWithinDay_def algebra_simps)


lemma time_fields_range:
  "0 \<le> HourFromTime t" "HourFromTime t \<le> 23" "0 \<le> MinFromTime t" "MinFromTime t \<le> 59"
  "0 \<le> SecFromTime t" "SecFromTime t \<le> 59" "0 \<le> msFromTime t" "msFromTime t \<le> 999"
  by (simp_all add: HourFromTime_def MinFromTime_def SecFromTime_def msFromTime_def msPerSecond_def)

lemma MakeTime_of_time:
  "MakeTime (HourFromTime t) (MinFromTime t) (SecFromTime t) (msFromTime t) = TimeWithinDay t"
proof -
  have a: "t mod 60000 = 1000 * ((t div 1000) mod 60) + t mod 1000"
    using zmod_zmult2_eq[of 60 t 1000] by simp
  have b: "t mod 3600000 = 60000 * ((t div 60000) mod 60) + t mod 60000"
    using zmod_zmult2_eq[of 60 t 60000] by simp
  have c: "t mod 86400000 = 3600000 * ((t div 3600000) mod 24) + t mod 3600000"
    using zmod_zmult2_eq[of 24 t 3600000] by simp
  show ?thesis
    by (simp add: MakeTime_def HourFromTime_def MinFromTime_def SecFromTime_def msFromTime_def
          TimeWithinDay_def msPerHour_def msPerMinute_def msPerSecond_def msPerDay_def a b c)
qed

lemma YearFromDay_ge: "DayFromYear y \<le> d \<Longrightarrow> y \<le> YearFromDay d"
proof (rule ccontr)
  assume a: "DayFromYear y \<le> d" "\<not> y \<le> YearFromDay d"
  then have "DayFromYear (YearFromDay d + 1) \<le> DayFromYear y"
    by (intro DayFromYear_mono) simp
  with YearFromDay_spec(2)[of d] a(1) show False by linarith
qed

lemma YearFromDay_less: "d < DayFromYear y \<Longrightarrow> YearFromDay d < y"
proof (rule ccontr)
  assume a: "d < DayFromYear y" "\<not> YearFromDay d < y"
  then have "DayFromYear y \<le> DayFromYear (YearFromDay d)"
    by (intro DayFromYear_mono) simp
  with YearFromDay_spec(1)[of d] a(1) show False by linarith
qed


lemma DayFromYear_values:
  "DayFromYear 0 = - 719528" "DayFromYear 10000 = 2932897"
  "DayFromYear (- 271821) = - 100000109" "DayFromYear 275761 = 100000110"
  by (simp_all add: DayFromYear_def)

lemma Day_bounds: "\<bar>t\<bar> \<le> maxTime \<Longrightarrow> - 100000000 \<le> Day t \<and> Day t \<le> 100000000"
  unfolding Day_def msPerDay_def maxTime_def
  using div_bounds[of 86400000 t] by (simp add: abs_le_iff)

lemma YearFromTime_bounds:
  assumes "\<bar>t\<bar> \<le> maxTime"
  shows "- 271821 \<le> YearFromTime t" "YearFromTime t < 275761"
proof -
  from Day_bounds[OF assms] have d: "- 100000000 \<le> Day t" "Day t \<le> 100000000" by simp_all
  show "- 271821 \<le> YearFromTime t"
    unfolding YearFromTime_def using d by (intro YearFromDay_ge) (simp add: DayFromYear_values)
  show "YearFromTime t < 275761"
    unfolding YearFromTime_def using d by (intro YearFromDay_less) (simp add: DayFromYear_values)
qed

section \<open>Reading back what \<^verbatim>\<open>toISOString\<close> writes\<close>


lemma digit_not_sign: "isDigit c \<Longrightarrow> c \<noteq> CHR ''+'' \<and> c \<noteq> CHR ''-''"
  by (auto simp: isDigit_def)

lemma pad_Cons:
  assumes "0 < k"
  obtains c cs where "pad k n = c # cs" "isDigit c"
proof (cases "pad k n")
  case Nil
  with length_pad[of k n] assms show ?thesis by simp
next
  case (Cons c cs)
  with isDigit_pad[of k n] have "isDigit c" by simp
  with Cons that show ?thesis by blast
qed

lemma isoYear_pad4:
  assumes "0 \<le> y" "y \<le> 9999"
  shows "isoYear (pad 4 y @ r) = Some (y, r)"
proof -
  obtain c cs where p: "pad 4 y = c # cs" "isDigit c"
    by (rule pad_Cons[of 4 "y"]) simp_all
  have "takeDigits 4 (pad 4 y @ r) = Some (y, r)"
    using assms by (intro takeDigits_pad) simp_all
  then show ?thesis
    using digit_not_sign[OF p(2)] unfolding isoYear_def p by simp
qed

lemma isoYear_isoYearString:
  assumes "- 1000000 < y" "y < 1000000"
  shows "isoYear (isoYearString y @ r) = Some (y, r)"
proof (cases "0 \<le> y \<and> y \<le> 9999")
  case True
  then show ?thesis by (simp add: isoYearString_def isoYear_pad4)
next
  case False
  show ?thesis
  proof (cases "y < 0")
    case True
    have "takeDigits 6 (pad 6 (- y) @ r) = Some (- y, r)"
      using assms True by (intro takeDigits_pad) simp_all
    with True show ?thesis by (simp add: isoYearString_def isoYear_def)
  next
    case False
    have "takeDigits 6 (pad 6 y @ r) = Some (y, r)"
      using assms False by (intro takeDigits_pad) simp_all
    with False \<open>\<not> (0 \<le> y \<and> y \<le> 9999)\<close> show ?thesis
      by (simp add: isoYearString_def isoYear_def)
  qed
qed


lemma isoMonthDay_pads:
  assumes "0 \<le> m" "m \<le> 99" "0 \<le> d" "d \<le> 99"
  shows "isoMonthDay (''-'' @ pad 2 m @ ''-'' @ pad 2 d @ r) = Some (m, d, r)"
proof -
  have a: "takeDigits 2 (pad 2 m @ CHR ''-'' # pad 2 d @ r) = Some (m, CHR ''-'' # pad 2 d @ r)"
    using assms by (intro takeDigits_pad) simp_all
  have b: "takeDigits 2 (pad 2 d @ r) = Some (d, r)"
    using assms by (intro takeDigits_pad) simp_all
  show ?thesis by (simp add: isoMonthDay_def a b)
qed

lemma isoTime_pads:
  assumes "0 \<le> h" "h \<le> 23" "0 \<le> m" "m \<le> 59" "0 \<le> s" "s \<le> 59" "0 \<le> ms" "ms \<le> 999"
  shows "isoTime (''T'' @ pad 2 h @ '':'' @ pad 2 m @ '':'' @ pad 2 s @ ''.''
                    @ pad 3 ms @ ''Z'') = Some (MakeTime h m s ms, ZoneOffset 0)"
proof -
  have a: "takeDigits 2 (pad 2 h @ r) = Some (h, r)" for r
    using assms by (intro takeDigits_pad) simp_all
  have b: "takeDigits 2 (pad 2 m @ r) = Some (m, r)" for r
    using assms by (intro takeDigits_pad) simp_all
  have c: "takeDigits 2 (pad 2 s @ r) = Some (s, r)" for r
    using assms by (intro takeDigits_pad) simp_all
  have d: "takeDigits 3 (pad 3 ms @ r) = Some (ms, r)" for r
    using assms by (intro takeDigits_pad) simp_all
  have z: "isoOffset ''Z'' = Some (ZoneOffset 0)"
    by (simp add: isoOffset_def)
  have f: "isoFraction (CHR ''.'' # pad 3 ms @ ''Z'') = Some (ms, ''Z'')"
    using d[of "''Z''"] by (simp add: isoFraction_def)
  have g: "isoSeconds (CHR '':'' # pad 2 s @ CHR ''.'' # pad 3 ms @ ''Z'') = Some (s, ms, ''Z'')"
    using c[of "CHR ''.'' # pad 3 ms @ ''Z''"] f by (simp add: isoSeconds_def)
  show ?thesis
    using a[of "CHR '':'' # pad 2 m @ CHR '':'' # pad 2 s @ CHR ''.'' # pad 3 ms @ ''Z''"]
          b[of "CHR '':'' # pad 2 s @ CHR ''.'' # pad 3 ms @ ''Z''"] g z assms
    by (simp add: isoTime_def)
qed

lemma isoDateTime_toISOString:
  assumes "\<bar>t\<bar> \<le> maxTime"
  shows "isoDateTime (toISOString t) = Some (t, ZoneOffset 0)"
proof -
  have y: "- 1000000 < YearFromTime t" "YearFromTime t < 1000000"
    using YearFromTime_bounds[OF assms] by simp_all
  have m: "0 \<le> MonthFromTime t + 1" "MonthFromTime t + 1 \<le> 99" "0 \<le> DateFromTime t" "DateFromTime t \<le> 99"
    using MonthFromTime_range[of t] DateFromTime_range[of t] by simp_all
  have md: "MakeDate (MakeDay (YearFromTime t) (MonthFromTime t) (DateFromTime t))
              (MakeTime (HourFromTime t) (MinFromTime t) (SecFromTime t) (msFromTime t)) = t"
    using MakeDay_of_time[of t 0] MakeDate_Day[of t 0] by (simp add: MakeTime_of_time)
  show ?thesis
    unfolding toISOString_def isoDateTime_def
    using MonthFromTime_range[of t] DateFromTime_range[of t] md
    by (simp only: isoYear_isoYearString[OF y] isoMonthDay_pads[OF m]
          isoTime_pads[OF time_fields_range] option.case prod.case) simp
qed

lemma Date_parse_toISOString:
  "\<bar>t\<bar> \<le> maxTime \<Longrightarrow> Date_parse pf (toISOString t) = Some t"
  by (simp add: Date_parse_def isoDateTime_toISOString TimeClip_def)


lemma Date_parse_empty: "Date_parse pf [] = None"
  by (simp add: Date_parse_def isoDateTime_def isoYear_def)

lemma setDate_getDate:
  "setDate pf (Some t) (case getDate pf (Some t) of None \<Rightarrow> None | Some d \<Rightarrow> Some (d + n))
     = TimeClip (advanceCalendarDays pf t n)"
  by (simp add: setDate_def getDate_def Let_def advanceCalendarDays_def MakeDay_of_time)

lemma advanceCalendarDays_eq:
  "advanceCalendarDays pf t n = UTC pf (LocalTime pf t + n * msPerDay)"
  by (simp add: advanceCalendarDays_def MakeDate_Day)

lemma nextWateringDueAt_eq:
  "nextWateringDueAt pf lw n =
     (case lw of
        None \<Rightarrow> Inr None
      | Some s \<Rightarrow>
          (case Date_parse pf s of
             None \<Rightarrow> Inr None
           | Some t \<Rightarrow>
               if \<bar>advanceCalendarDays pf t n\<bar> \<le> maxTime
               then Inr (Some (toISOString (advanceCalendarDays pf t n)))
               else Inl RangeError))"
proof (cases lw)
  case None
  then show ?thesis by (simp add: nextWateringDueAt_def)
next
  case (Some s)
  show ?thesis
  proof (cases "Date_parse pf s")
    case None
    with Some show ?thesis
      by (simp add: nextWateringDueAt_def Date_new_def getTime_def Let_def)
  next
    case (Some t)
    then have "s \<noteq> []" using Date_parse_empty[of pf] by auto
    with Some \<open>lw = Some s\<close> setDate_getDate[of pf t n] show ?thesis
      by (simp add: nextWateringDueAt_def Date_new_def getTime_def Let_def TimeClip_def
            Date_toISOString_def)
  qed
qed

section \<open>The due-date rule\<close>


lemma mapRow_next:
  "mapRow pf r = Inr p \<Longrightarrow>
     nextWateringDueAt pf (last_watered_at r) (watering_interval_days r) = Inr (nextWateringDueAt' p)"
  by (auto simp: mapRow_def split: sum.splits)

lemma mapRow_next_None:
  assumes "mapRow pf r = Inr p"
  shows "nextWateringDueAt' p = None \<longleftrightarrow>
           (last_watered_at r = None \<or> (\<exists>s. last_watered_at r = Some s \<and> Date_parse pf s = None))"
  using mapRow_next[OF assms]
  by (auto simp: nextWateringDueAt_eq split: option.splits if_splits dest: sym)

text \<open>
  Where both due dates are time values a \<^verbatim>\<open>Date\<close> can hold, \<^verbatim>\<open>nextWateringDueAt\<close> is
  monotone in the interval: for a \<^verbatim>\<open>lastWateredAt\<close> that parses and \<open>1 \<le> d1 \<le> d2 \<le> 365\<close>
  it returns two timestamps, the first not later than the second as instants.  The
  host's zone is taken to change its offset by at most one day between local times
  less than a year apart.
\<close>

lemma nextWateringDueAt_monotone_valid:
  assumes "Date_parse pf s = Some t"
      and "1 \<le> d1" "d1 \<le> d2" "d2 \<le> 365"
      and "\<forall>x y. \<bar>x - y\<bar> \<le> 365 * msPerDay
                  \<longrightarrow> LocalTZA pf x False - LocalTZA pf y False \<le> msPerDay"
      and "\<bar>advanceCalendarDays pf t d1\<bar> \<le> maxTime" "\<bar>advanceCalendarDays pf t d2\<bar> \<le> maxTime"
  shows "\<exists>s1 s2 t1 t2.
           nextWateringDueAt pf (Some s) d1 = Inr (Some s1)
         \<and> nextWateringDueAt pf (Some s) d2 = Inr (Some s2)
         \<and> Date_parse pf s1 = Some t1 \<and> Date_parse pf s2 = Some t2 \<and> t1 \<le> t2"
proof -
  let ?a1 = "advanceCalendarDays pf t d1" and ?a2 = "advanceCalendarDays pf t d2"
  have n1: "nextWateringDueAt pf (Some s) d1 = Inr (Some (toISOString ?a1))"
   and n2: "nextWateringDueAt pf (Some s) d2 = Inr (Some (toISOString ?a2))"
    using assms by (simp_all add: nextWateringDueAt_eq)
  have p1: "Date_parse pf (toISOString ?a1) = Some ?a1"
   and p2: "Date_parse pf (toISOString ?a2) = Some ?a2"
    using assms by (simp_all add: Date_parse_toISOString)
  have "?a1 \<le> ?a2"
  proof (cases "d1 = d2")
    case True
    then show ?thesis by simp
  next
    case False
    with assms(3) have "1 \<le> d2 - d1" by simp
    then have m: "msPerDay \<le> (d2 - d1) * msPerDay"
      by (simp add: msPerDay_def)
    from assms(2,3,4) have "0 \<le> d2 - d1" "d2 - d1 \<le> 365" by simp_all
    then have "\<bar>(d2 - d1) * msPerDay\<bar> \<le> 365 * msPerDay"
      by (simp add: msPerDay_def)
    then have "\<bar>(LocalTime pf t + d2 * msPerDay) - (LocalTime pf t + d1 * msPerDay)\<bar>
                 \<le> 365 * msPerDay"
      by (simp add: algebra_simps)
    with assms(5)
    have "LocalTZA pf (LocalTime pf t + d2 * msPerDay) False
            - LocalTZA pf (LocalTime pf t + d1 * msPerDay) False \<le> msPerDay"
      by blast
    with m show ?thesis
      by (simp add: advanceCalendarDays_eq UTC_def algebra_simps)
  qed
  with n1 n2 p1 p2 show ?thesis by blast
qed

text \<open>
  Claim C7 at the end of the range of time values.  \<^verbatim>\<open>+275760-09-12T00:00:00.000Z\<close> is
  a \<^verbatim>\<open>lastWateredAt\<close> that parses and that \<^verbatim>\<open>parseDateOrNull\<close> stores as it is.  With an
  interval of one day \<^verbatim>\<open>nextWateringDueAt\<close> returns the last day a \<^verbatim>\<open>Date\<close> can hold;
  with an interval of two days \<^verbatim>\<open>setDate\<close> makes the date invalid and \<^verbatim>\<open>toISOString\<close>
  throws a RangeError, so there is no second due date for the first to be compared
  with.
\<close>

theorem nextWateringDueAt_longer_interval_throws:
  "parseDateOrNull utc_host (JStr ''+275760-09-12T00:00:00.000Z'')
     = JStr ''+275760-09-12T00:00:00.000Z''
   \<and> Date_parse utc_host ''+275760-09-12T00:00:00.000Z'' = Some 8639999913600000
   \<and> parseInterval utc_host (JNum (Integer 1)) = Some 1
   \<and> parseInterval utc_host (JNum (Integer 2)) = Some 2
   \<and> nextWateringDueAt utc_host (Some ''+275760-09-12T00:00:00.000Z'') 1
       = Inr (Some ''+275760-09-13T00:00:00.000Z'')
   \<and> nextWateringDueAt utc_host (Some ''+275760-09-12T00:00:00.000Z'') 2 = Inl RangeError"
  by code_simp

text \<open>
  Claim C4.  For every plant record and every instant \<open>now\<close>, \<^verbatim>\<open>isDueNow\<close> is true
  exactly when \<^verbatim>\<open>lastWateredAt\<close> is absent (null or the empty string), or
  \<^verbatim>\<open>nextWateringDueAt\<close> is null or does not parse, or the due instant is not after
  \<open>now\<close> (equality counts as due).  A row whose \<^verbatim>\<open>last_watered_at\<close> is NULL satisfies the
  due condition of \<^verbatim>\<open>listPlants\<close> and fails its upcoming condition at every instant,
  and the record read from it is due for the client.
\<close>

theorem isDueNow_rule:
  "(isDueNow pf now p \<longleftrightarrow>
       lastWateredAt p = None \<or> lastWateredAt p = Some []
     \<or> nextWateringDueAt' p = None
     \<or> (\<exists>s. nextWateringDueAt' p = Some s
             \<and> (Date_parse pf s = None \<or> (\<exists>t. Date_parse pf s = Some t \<and> t \<le> now))))
   \<and> (last_watered_at r = None \<longrightarrow>
         due_condition pfs dbnow r = Some True
       \<and> upcoming_condition pfs dbnow r = Some False
       \<and> (\<exists>q. mapRow pfs r = Inr q \<and> lastWateredAt q = None \<and> isDueNow pf now q))"
proof -
  have a: "isDueNow pf now p \<longleftrightarrow>
             lastWateredAt p = None \<or> lastWateredAt p = Some []
           \<or> nextWateringDueAt' p = None
           \<or> (\<exists>s. nextWateringDueAt' p = Some s
                   \<and> (Date_parse pf s = None \<or> (\<exists>t. Date_parse pf s = Some t \<and> t \<le> now)))"
    by (auto simp: isDueNow_def Date_new_def getTime_def Date_parse_empty split: option.splits)
  have b: "due_condition pfs dbnow r = Some True \<and> upcoming_condition pfs dbnow r = Some False
           \<and> (\<exists>q. mapRow pfs r = Inr q \<and> lastWateredAt q = None \<and> isDueNow pf now q)"
    if n: "last_watered_at r = None"
  proof -
    from n obtain q where q: "mapRow pfs r = Inr q" "lastWateredAt q = None"
      by (simp add: mapRow_def nextWateringDueAt_def)
    then have "isDueNow pf now q" by (simp add: isDueNow_def)
    with q n show ?thesis
      by (auto simp: due_condition_def upcoming_condition_def sql_or_def sql_and_def
            sql_is_null_def sql_is_not_null_def)
  qed
  from a b show ?thesis by blast
qed

lemma sample_mapRow:
  "mapRow utc_host (sample_rows ! 0) = Inr fern_plant"
  "mapRow utc_host (sample_rows ! 1) = Inr cactus_plant"
  by code_simp+

lemma sample_due_parse:
  "Date_parse utc_host ''2024-01-08T00:00:00.000Z'' = Some 1704672000000"
  by code_simp

lemma sample_garbled_parse: "Date_parse utc_host ''soon'' = None"
  by code_simp

theorem isDueNow_rule_witness:
  "nextWateringDueAt' fern_plant = Some ''2024-01-08T00:00:00.000Z''
   \<and> Date_parse utc_host ''2024-01-08T00:00:00.000Z'' = Some 1704672000000
   \<and> isDueNow utc_host 1704672000000 fern_plant
   \<and> \<not> isDueNow utc_host 1704671999999 fern_plant
   \<and> nextWateringDueAt' garbled_plant = Some ''soon''
   \<and> Date_parse utc_host ''soon'' = None
   \<and> isDueNow utc_host 0 garbled_plant
   \<and> last_watered_at (sample_rows ! 1) = None
   \<and> due_condition utc_host 0 (sample_rows ! 1) = Some True
   \<and> upcoming_condition utc_host 0 (sample_rows ! 1) = Some False
   \<and> mapRow utc_host (sample_rows ! 1) = Inr cactus_plant
   \<and> isDueNow utc_host 0 cactus_plant"
proof -
  have f: "nextWateringDueAt' fern_plant = Some ''2024-01-08T00:00:00.000Z''"
          "lastWateredAt fern_plant = Some ''2024-01-01T00:00:00.000Z''"
          "nextWateringDueAt' garbled_plant = Some ''soon''"
          "last_watered_at (sample_rows ! 1) = None"
    by (simp_all add: fern_plant_def garbled_plant_def sample_rows_def)
  from isDueNow_rule[of utc_host 1704672000000 fern_plant "sample_rows ! 1" utc_host 0]
       f sample_due_parse
  have a: "isDueNow utc_host 1704672000000 fern_plant" by simp
  from isDueNow_rule[of utc_host 1704671999999 fern_plant "sample_rows ! 1" utc_host 0]
       f sample_due_parse
  have b: "\<not> isDueNow utc_host 1704671999999 fern_plant" by simp
  from isDueNow_rule[of utc_host 0 garbled_plant "sample_rows ! 1" utc_host 0]
       f(3) sample_garbled_parse
  have c: "isDueNow utc_host 0 garbled_plant" by blast
  from isDueNow_rule[of utc_host 0 garbled_plant "sample_rows ! 1" utc_host 0] f(4)
  have d: "due_condition utc_host 0 (sample_rows ! 1) = Some True"
          "upcoming_condition utc_host 0 (sample_rows ! 1) = Some False"
      and "\<exists>q. mapRow utc_host (sample_rows ! 1) = Inr q \<and> isDueNow utc_host 0 q"
    by blast+
  then obtain q where q: "mapRow utc_host (sample_rows ! 1) = Inr q" "isDueNow utc_host 0 q"
    by blast
  from q(1) have "q = cactus_plant" unfolding sample_mapRow(2) by simp
  with q(2) have e: "isDueNow utc_host 0 cactus_plant" by simp
  show ?thesis
    using a b c d e f(1,3,4) sample_mapRow(2) sample_due_parse sample_garbled_parse
    by (intro conjI)
qed

lemma ceilDays_spec: "msPerDay * (ceilDays x - 1) < x \<and> x \<le> msPerDay * ceilDays x"
  unfolding ceilDays_def msPerDay_def using div_bounds[of 86400000 "- x"] by simp

text \<open>
  Claim C5.  For every plant record and every instant \<open>now\<close>: when \<^verbatim>\<open>lastWateredAt\<close> is
  absent (null or the empty string), or \<^verbatim>\<open>nextWateringDueAt\<close> is null or does not parse,
  the label is "Needs water" with tone due.  When \<^verbatim>\<open>lastWateredAt\<close> is present and
  \<^verbatim>\<open>nextWateringDueAt\<close> parses to \<open>dueTime\<close>, the label is decided by \<open>dayOffset\<close>, the
  ceiling of \<open>(dueTime - now) / msPerDay\<close> (the integer with
  \<open>msPerDay * (dayOffset - 1) < dueTime - now \<le> msPerDay * dayOffset\<close>):
  "Overdue |dayOffset|d" and due below 0, "Due today" and due at 0,
  "Due in dayOffset d" and soon for 1 and 2, "Due in dayOffset d" and ok above 2.
  \<^verbatim>\<open>dueLabel\<close> itself never parses \<^verbatim>\<open>lastWateredAt\<close>: a record whose \<^verbatim>\<open>lastWateredAt\<close> does
  not parse is labelled "Needs water" when it is one a read returned, because
  \<^verbatim>\<open>mapRow\<close> gives such a record no due date.
\<close>

theorem dueLabel_rule:
  "(lastWateredAt p = None \<or> lastWateredAt p = Some []
      \<or> nextWateringDueAt' p = None
      \<or> (\<exists>s. nextWateringDueAt' p = Some s \<and> Date_parse pf s = None)
    \<longrightarrow> dueLabel pf now p = \<lparr> text' = ''Needs water'', tone = Due \<rparr>)
   \<and> (\<forall>s dueTime.
         lastWateredAt p \<noteq> None \<and> lastWateredAt p \<noteq> Some []
         \<and> nextWateringDueAt' p = Some s \<and> Date_parse pf s = Some dueTime \<longrightarrow>
            (\<exists>dayOffset.
                msPerDay * (dayOffset - 1) < dueTime - now \<and> dueTime - now \<le> msPerDay * dayOffset
              \<and> dueLabel pf now p =
                  (if dayOffset < 0
                   then \<lparr> text' = ''Overdue '' @ decimal \<bar>dayOffset\<bar> @ ''d'', tone = Due \<rparr>
                   else if dayOffset = 0 then \<lparr> text' = ''Due today'', tone = Due \<rparr>
                   else if dayOffset \<le> 2
                   then \<lparr> text' = ''Due in '' @ decimal dayOffset @ ''d'', tone = Soon \<rparr>
                   else \<lparr> text' = ''Due in '' @ decimal dayOffset @ ''d'', tone = Ok \<rparr>)))
   \<and> (\<forall>r s. mapRow pfs r = Inr p \<and> lastWateredAt p = Some s \<and> Date_parse pfs s = None
         \<longrightarrow> dueLabel pf now p = \<lparr> text' = ''Needs water'', tone = Due \<rparr>)"
proof (intro conjI impI allI)
  assume "lastWateredAt p = None \<or> lastWateredAt p = Some []
            \<or> nextWateringDueAt' p = None
            \<or> (\<exists>s. nextWateringDueAt' p = Some s \<and> Date_parse pf s = None)"
  then show "dueLabel pf now p = \<lparr> text' = ''Needs water'', tone = Due \<rparr>"
    by (auto simp: dueLabel_def Date_new_def getTime_def split: option.splits)
next
  fix s dueTime
  assume h: "lastWateredAt p \<noteq> None \<and> lastWateredAt p \<noteq> Some []
             \<and> nextWateringDueAt' p = Some s \<and> Date_parse pf s = Some dueTime"
  then have s: "s \<noteq> []" using Date_parse_empty[of pf] by auto
  let ?d = "ceilDays (dueTime - now)"
  have "dueLabel pf now p =
                  (if ?d < 0
                   then \<lparr> text' = ''Overdue '' @ decimal \<bar>?d\<bar> @ ''d'', tone = Due \<rparr>
                   else if ?d = 0 then \<lparr> text' = ''Due today'', tone = Due \<rparr>
                   else if ?d \<le> 2
                   then \<lparr> text' = ''Due in '' @ decimal ?d @ ''d'', tone = Soon \<rparr>
                   else \<lparr> text' = ''Due in '' @ decimal ?d @ ''d'', tone = Ok \<rparr>)"
    using h s by (simp add: dueLabel_def Date_new_def getTime_def Let_def)
  with ceilDays_spec[of "dueTime - now"]
  show "\<exists>dayOffset.
                msPerDay * (dayOffset - 1) < dueTime - now \<and> dueTime - now \<le> msPerDay * dayOffset
              \<and> dueLabel pf now p =
                  (if dayOffset < 0
                   then \<lparr> text' = ''Overdue '' @ decimal \<bar>dayOffset\<bar> @ ''d'', tone = Due \<rparr>
                   else if dayOffset = 0 then \<lparr> text' = ''Due today'', tone = Due \<rparr>
                   else if dayOffset \<le> 2
                   then \<lparr> text' = ''Due in '' @ decimal dayOffset @ ''d'', tone = Soon \<rparr>
                   else \<lparr> text' = ''Due in '' @ decimal dayOffset @ ''d'', tone = Ok \<rparr>)"
    by blast
next
  fix r s
  assume h: "mapRow pfs r = Inr p \<and> lastWateredAt p = Some s \<and> Date_parse pfs s = None"
  then have "nextWateringDueAt' p = None"
    using mapRow_next_None[of pfs r p] mapRow_fields[of pfs r p] by auto
  then show "dueLabel pf now p = \<lparr> text' = ''Needs water'', tone = Due \<rparr>"
    by (auto simp: dueLabel_def split: option.splits)
qed

lemma sample_labels:
  "dueLabel utc_host 1704412800000 fern_plant = \<lparr> text' = ''Due in 3d'', tone = Ok \<rparr>"
  "dueLabel utc_host 1704585600000 fern_plant = \<lparr> text' = ''Due in 1d'', tone = Soon \<rparr>"
  "dueLabel utc_host 1704672000000 fern_plant = \<lparr> text' = ''Due today'', tone = Due \<rparr>"
  "dueLabel utc_host 1704758400001 fern_plant = \<lparr> text' = ''Overdue 1d'', tone = Due \<rparr>"
  by code_simp+

lemma sample_stale:
  "mapRow utc_host stale_row = Inr stale_plant"
  "Date_parse utc_host ''last week'' = None"
  by code_simp+

theorem dueLabel_rule_witness:
  "nextWateringDueAt' fern_plant = Some ''2024-01-08T00:00:00.000Z''
   \<and> Date_parse utc_host ''2024-01-08T00:00:00.000Z'' = Some 1704672000000
   \<and> msPerDay * (3 - 1) < 1704672000000 - 1704412800000
   \<and> 1704672000000 - 1704412800000 \<le> msPerDay * 3
   \<and> dueLabel utc_host 1704412800000 fern_plant = \<lparr> text' = ''Due in 3d'', tone = Ok \<rparr>
   \<and> dueLabel utc_host 1704758400001 fern_plant = \<lparr> text' = ''Overdue 1d'', tone = Due \<rparr>
   \<and> lastWateredAt cactus_plant = None
   \<and> dueLabel utc_host 1704412800000 cactus_plant = \<lparr> text' = ''Needs water'', tone = Due \<rparr>
   \<and> nextWateringDueAt' garbled_plant = Some ''soon''
   \<and> Date_parse utc_host ''soon'' = None
   \<and> dueLabel utc_host 1704412800000 garbled_plant = \<lparr> text' = ''Needs water'', tone = Due \<rparr>
   \<and> mapRow utc_host stale_row = Inr stale_plant
   \<and> lastWateredAt stale_plant = Some ''last week''
   \<and> Date_parse utc_host ''last week'' = None
   \<and> dueLabel utc_host 1704412800000 stale_plant = \<lparr> text' = ''Needs water'', tone = Due \<rparr>"
proof -
  have f: "nextWateringDueAt' fern_plant = Some ''2024-01-08T00:00:00.000Z''"
          "lastWateredAt fern_plant = Some ''2024-01-01T00:00:00.000Z''"
          "lastWateredAt cactus_plant = None"
          "nextWateringDueAt' garbled_plant = Some ''soon''"
          "lastWateredAt stale_plant = Some ''last week''"
    by (simp_all add: fern_plant_def cactus_plant_def garbled_plant_def stale_plant_def)
  from dueLabel_rule[of cactus_plant utc_host 1704412800000 utc_host, THEN conjunct1] f(3)
  have n: "dueLabel utc_host 1704412800000 cactus_plant = \<lparr> text' = ''Needs water'', tone = Due \<rparr>"
    by simp
  from dueLabel_rule[of garbled_plant utc_host 1704412800000 utc_host, THEN conjunct1]
       f(4) sample_garbled_parse
  have g: "dueLabel utc_host 1704412800000 garbled_plant = \<lparr> text' = ''Needs water'', tone = Due \<rparr>"
    by simp
  from dueLabel_rule[of stale_plant utc_host 1704412800000 utc_host,
         THEN conjunct2, THEN conjunct2, THEN spec, THEN spec, of stale_row "''last week''"]
       f(5) sample_stale
  have t: "dueLabel utc_host 1704412800000 stale_plant = \<lparr> text' = ''Needs water'', tone = Due \<rparr>"
    by simp
  from dueLabel_rule[of fern_plant utc_host 1704412800000 utc_host,
         THEN conjunct2, THEN conjunct1, THEN spec, THEN spec,
         of "''2024-01-08T00:00:00.000Z''" 1704672000000]
       f(1,2) sample_due_parse
  obtain k where k: "msPerDay * (k - 1) < 1704672000000 - 1704412800000"
      "1704672000000 - 1704412800000 \<le> msPerDay * k"
      "dueLabel utc_host 1704412800000 fern_plant =
         (if k < 0
          then \<lparr> text' = ''Overdue '' @ decimal \<bar>k\<bar> @ ''d'', tone = Due \<rparr>
          else if k = 0 then \<lparr> text' = ''Due today'', tone = Due \<rparr>
          else if k \<le> 2
          then \<lparr> text' = ''Due in '' @ decimal k @ ''d'', tone = Soon \<rparr>
          else \<lparr> text' = ''Due in '' @ decimal k @ ''d'', tone = Ok \<rparr>)"
    by auto
  from k(1,2) have "k = 3" by (simp add: msPerDay_def)
  moreover have "decimal 3 = ''3''" by code_simp
  ultimately
  have l: "dueLabel utc_host 1704412800000 fern_plant = \<lparr> text' = ''Due in 3d'', tone = Ok \<rparr>"
    using k(3) by simp
  have d: "msPerDay * (3 - 1) < 1704672000000 - 1704412800000"
          "1704672000000 - 1704412800000 \<le> msPerDay * 3"
    by (simp_all add: msPerDay_def)
  show ?thesis
    using n g t d l f(1,3,4,5) sample_stale sample_due_parse sample_garbled_parse sample_labels(4)
    by (intro conjI)
qed

section \<open>The storage-side filter\<close>














































section \<open>Where the filters and the client part\<close>


text \<open>
  The server's zone matters as well: \<^verbatim>\<open>setDate\<close> moves the date on the local calendar,
  SQLite adds days of 24 hours.  On \<open>dst_host\<close> the plant \<open>dst_row\<close> is due at
  2024-03-31T11:00:00Z for the record and at 12:00:00 for the filter; half an hour
  after the first the client has it due and the filter has it upcoming.
\<close>

lemma due_filter_differs_in_dst_zone:
  "mapRow dst_host dst_row = Inr dst_plant
   \<and> isDueNow dst_host 1711884600000 dst_plant
   \<and> due_condition dst_host 1711884600000 dst_row = Some False
   \<and> upcoming_condition dst_host 1711884600000 dst_row = Some True"
  by code_simp

text \<open>No row satisfies both conditions, whatever the row and the instant.\<close>

lemma due_upcoming_disjoint:
  "\<not> (due_condition pf now r = Some True \<and> upcoming_condition pf now r = Some True)"
  by (cases "last_watered_at r";
      cases "datetime_plus_days pf now (last_watered_at r) (watering_interval_days r)")
     (auto simp: due_condition_def upcoming_condition_def sql_or_def sql_and_def sql_le_def
        sql_gt_def sql_is_null_def sql_is_not_null_def datetime_now_def
        split: option.splits if_splits)

text \<open>
  Claim C2 at a row the validation layer lets in.  \<^verbatim>\<open>POST /plants\<close> with
  \<^verbatim>\<open>lastWateredAt\<close> 9999-12-31T12:00:00.000Z and an interval of one day answers 201 and
  stores \<open>far_row\<close>.  SQLite's \<^verbatim>\<open>datetime\<close> has no text for the day after, its value is
  NULL, and so are both comparisons: the row is listed under no filter but
  \<^verbatim>\<open>all\<close>, although the record read from it has a due date and \<^verbatim>\<open>isDueNow\<close> is false
  for it.
\<close>

theorem far_row_in_neither_filter:
  "handle utc_host 1704153600200 empty_database (POST_plants far_body)
     = (\<lparr> plants = [far_row], sqlite_sequence = 1 \<rparr>, 201)
   \<and> due_condition utc_host 1704153600200 far_row = None
   \<and> upcoming_condition utc_host 1704153600200 far_row = None
   \<and> listPlants utc_host 1704153600200 \<lparr> plants = [far_row], sqlite_sequence = 1 \<rparr>
         (JStr ''due'') = Inr []
   \<and> listPlants utc_host 1704153600200 \<lparr> plants = [far_row], sqlite_sequence = 1 \<rparr>
         (JStr ''upcoming'') = Inr []
   \<and> listPlants utc_host 1704153600200 \<lparr> plants = [far_row], sqlite_sequence = 1 \<rparr>
         (JStr ''all'') = Inr [far_plant]
   \<and> \<not> isDueNow utc_host 1704153600200 far_plant"
  by code_simp

text \<open>
  Claim C3 where the due date leaves the range of time values.  The largest instant
  a \<^verbatim>\<open>Date\<close> holds passes \<^verbatim>\<open>parseDateOrNull\<close> and the test for NaN in
  \<^verbatim>\<open>nextWateringDueAt\<close>; \<^verbatim>\<open>setDate\<close> then makes the date invalid and \<^verbatim>\<open>toISOString\<close> throws
  a RangeError, where the claim has a timestamp or null.  \<^verbatim>\<open>POST /plants\<close> stores the row
  and answers 500, and from then on every listing that selects the row throws.
\<close>

theorem nextWateringDueAt_throws:
  "parseDateOrNull utc_host (JStr ''+275760-09-13T00:00:00.000Z'')
     = JStr ''+275760-09-13T00:00:00.000Z''
   \<and> Date_parse utc_host ''+275760-09-13T00:00:00.000Z'' = Some 8640000000000000
   \<and> nextWateringDueAt utc_host (Some ''+275760-09-13T00:00:00.000Z'') 1 = Inl RangeError
   \<and> mapRow utc_host max_row = Inl RangeError
   \<and> handle utc_host 1704153600200 empty_database (POST_plants max_body)
       = (\<lparr> plants = [max_row], sqlite_sequence = 1 \<rparr>, 500)
   \<and> listPlants utc_host 1704153600200 \<lparr> plants = [max_row], sqlite_sequence = 1 \<rparr>
         (JStr ''all'') = Inl RangeError"
  by code_simp

end
